theory Spec2Isabelle
  imports Complex_Main
begin

section \<open>Strings\<close>

text \<open>
  Python strings are modelled as \<^typ>\<open>string\<close>. The functions of this section are the
  pieces of the Python standard library that the two scripts call on strings:
  \<^verbatim>\<open>string.ascii_uppercase\<close>, \<^verbatim>\<open>string.ascii_lowercase\<close>, \<^verbatim>\<open>string.digits\<close>,
  \<^verbatim>\<open>str.join\<close>, the decimal text of an integer and \<^verbatim>\<open>repr\<close> of a string that needs
  no escape. \<^verbatim>\<open>str.lower\<close> itself follows the Unicode tables and is taken from the
  surroundings of the process (see \<open>world\<close> below); \<open>ascii_lower\<close> is its restriction to
  ASCII text, where it maps \<^verbatim>\<open>A-Z\<close> to \<^verbatim>\<open>a-z\<close> and leaves every other character.
\<close>

definition ascii_uppercase :: string where
  "ascii_uppercase = ''ABCDEFGHIJKLMNOPQRSTUVWXYZ''"

definition ascii_lowercase :: string where
  "ascii_lowercase = ''abcdefghijklmnopqrstuvwxyz''"

definition digits :: string where
  "digits = ''0123456789''"

definition lower_char :: "char \<Rightarrow> char" where
  "lower_char c =
     (case map_of (zip ascii_uppercase ascii_lowercase) c of None \<Rightarrow> c | Some d \<Rightarrow> d)"

definition ascii_lower :: "string \<Rightarrow> string" where
  "ascii_lower s = map lower_char s"

fun join :: "string \<Rightarrow> string list \<Rightarrow> string" where
  "join sep [] = []"
| "join sep [x] = x"
| "join sep (x # y # ys) = x @ sep @ join sep (y # ys)"

fun str_nat :: "nat \<Rightarrow> string" where
  "str_nat n =
     (if n < 10 then [digits ! n] else str_nat (n div 10) @ [digits ! (n mod 10)])"

declare str_nat.simps [simp del]

definition str_int :: "int \<Rightarrow> string" where
  "str_int i = (if i < 0 then CHR ''-'' # str_nat (nat (- i)) else str_nat (nat i))"

definition repr_str :: "string \<Rightarrow> string" where
  "repr_str s = CHR 0x27 # s @ [CHR 0x27]"

text \<open>An f-string field holding the result of \<^verbatim>\<open>os.getenv\<close>: \<^verbatim>\<open>None\<close> prints as \<^verbatim>\<open>None\<close>.\<close>

definition fmt :: "string option \<Rightarrow> string" where
  "fmt v = (case v of None \<Rightarrow> ''None'' | Some s \<Rightarrow> s)"

section \<open>Floats\<close>

text \<open>
  A Python float is an IEEE 754 binary64 number. A finite one is the real number it
  denotes, and an arithmetic operation is the exact operation followed by rounding to the
  nearest number with a 53-bit significand, ties to the even significand: \<open>rd\<close>. The
  exponent range is not bounded here; every value the scripts compute lies far inside the
  range of normal numbers. \<open>exponent x\<close> is the binary exponent of \<open>x\<close>, \<open>ulp x\<close> the gap
  between neighbouring floats at \<open>x\<close>.
\<close>

definition round_half_even :: "real \<Rightarrow> int" where
  "round_half_even y =
     (let f = \<lfloor>y\<rfloor>; d = y - of_int f
      in if d < 1 / 2 then f else if 1 / 2 < d then f + 1 else if even f then f else f + 1)"

definition exponent :: "real \<Rightarrow> int" where
  "exponent x = \<lfloor>log 2 \<bar>x\<bar>\<rfloor>"

definition ulp :: "real \<Rightarrow> real" where
  "ulp x = 2 powr (of_int (exponent x) - 52)"

definition rd :: "real \<Rightarrow> real" where
  "rd x = (if x = 0 then 0 else of_int (round_half_even (x / ulp x)) * ulp x)"

text \<open>\<^verbatim>\<open>int(x)\<close> on a float truncates towards zero.\<close>

definition py_int :: "real \<Rightarrow> int" where
  "py_int x = (if 0 \<le> x then \<lfloor>x\<rfloor> else \<lceil>x\<rceil>)"

section \<open>The process and its surroundings\<close>

text \<open>
  Both scripts run top to bottom at module level. What they read from outside, and what
  the libraries they call decide, is collected in one record: the command line, the file
  system test \<^verbatim>\<open>os.path.exists\<close>, the effect of \<^verbatim>\<open>load_dotenv(path)\<close> on the process
  environment, the process environment at start, \<^verbatim>\<open>str.lower\<close>, Python's \<^verbatim>\<open>float(str)\<close>
  (\<open>None\<close> where it raises \<^verbatim>\<open>ValueError\<close>), \<^verbatim>\<open>repr\<close> of a float, and for each client
  constructor of \<^verbatim>\<open>confluent_kafka\<close> whether it returns a handle (\<open>None\<close>) or raises
  (\<open>Some\<close> of the exception) on the configuration it is given. The environment is a map
  from names to values; \<^verbatim>\<open>os.getenv(k)\<close> is the lookup.
\<close>

type_synonym environ = "string \<Rightarrow> string option"

datatype signal = SIGINT | SIGTERM

datatype avro_type = AvroString | AvroFloat | AvroLong

record avro_schema =
  schema_type :: string
  schema_name :: string
  schema_namespace :: string
  schema_fields :: "(string \<times> avro_type) list"

datatype conf_val =
    Str "string option"
  | StringSerializer string
  | StringDeserializer string
  | TheAvroSerializer
  | TheAvroDeserializer

datatype exc = ValueError | Exception string

datatype halt = SysExit int | Uncaught exc

record world =
  argv :: "string list"
  path_exists :: "string \<Rightarrow> bool"
  load_dotenv :: "string \<Rightarrow> environ \<Rightarrow> environ"
  environ :: environ
  str_lower :: "string \<Rightarrow> string"
  float_of_str :: "string \<Rightarrow> real option"
  repr_float :: "real \<Rightarrow> string"
  schema_registry_client :: "(string \<times> string option) list \<Rightarrow> exc option"
  avro_serializer :: "avro_schema \<Rightarrow> exc option"
  avro_deserializer :: "exc option"
  serializing_producer :: "(string \<times> conf_val) list \<Rightarrow> exc option"
  deserializing_consumer :: "(string \<times> conf_val) list \<Rightarrow> exc option"

definition getenv_default :: "environ \<Rightarrow> string \<Rightarrow> string \<Rightarrow> string" where
  "getenv_default env k d = (case env k of None \<Rightarrow> d | Some v \<Rightarrow> v)"

text \<open>
  The dictionary \<^verbatim>\<open>generate_random_transaction\<close> returns has four fixed keys; it is a
  record here.
\<close>

record transaction =
  transaction_id :: string
  customer_id :: string
  amount :: real
  timestamp_ms :: int

text \<open>
  What a script does is the list of its effects in order, and how it stops: \<^verbatim>\<open>sys.exit(n)\<close>
  or an exception nobody catches. A constructor event stands for a handle that was
  constructed; a constructor that raises leaves no event.
\<close>

datatype event =
    Print string
  | LoadDotenv string
  | NewSchemaRegistryClient "(string \<times> string option) list"
  | NewAvroSerializer avro_schema
  | NewAvroDeserializer
  | NewSerializingProducer "(string \<times> conf_val) list"
  | NewDeserializingConsumer "(string \<times> conf_val) list"
  | SignalSignal signal
  | Subscribe "string option list"
  | Produce "string option" transaction
  | ProducerPoll real
  | Sleep real
  | Flush real
  | ConsumerPoll real
  | ConsumerClose

fun is_client_construction :: "event \<Rightarrow> bool" where
  "is_client_construction (NewSchemaRegistryClient c) = True"
| "is_client_construction (NewAvroSerializer s) = True"
| "is_client_construction NewAvroDeserializer = True"
| "is_client_construction (NewSerializingProducer c) = True"
| "is_client_construction (NewDeserializingConsumer c) = True"
| "is_client_construction e = False"

fun printed :: "event list \<Rightarrow> string list" where
  "printed [] = []"
| "printed (Print s # es) = s # printed es"
| "printed (e # es) = printed es"

text \<open>Log lines by their level prefix.\<close>

definition is_error_line :: "string \<Rightarrow> bool" where
  "is_error_line s = (take 7 s = ''[ERROR]'')"

definition is_warn_line :: "string \<Rightarrow> bool" where
  "is_warn_line s = (take 6 s = ''[WARN]'')"

section \<open>Loading the environment file\<close>

text \<open>
  \<^verbatim>\<open>load_environment_file\<close> is the same function in both scripts. It returns the process
  environment after \<^verbatim>\<open>load_dotenv\<close>, or stops the process.
\<close>

definition load_environment_file :: "world \<Rightarrow> event list \<times> (halt + environ)" where
  "load_environment_file w =
     (case (if length (argv w) > 1
            then (let env_arg = str_lower w (argv w ! 1)
                  in if env_arg \<in> set [''east'', ''west'']
                     then Inr (env_arg @ ''.env'')
                     else Inl env_arg)
            else Inr ''.env'') of
        Inl env_arg \<Rightarrow>
          ([Print (''[ERROR] Invalid environment argument: '' @ env_arg),
            Print (''[INFO] Valid options: 'east', 'west'' @ [CHR 0x27])],
           Inl (SysExit 1))
      | Inr env_file \<Rightarrow>
          if path_exists w env_file
          then ([LoadDotenv env_file,
                 Print (''[INFO] Loaded environment from '' @ env_file)],
                Inr (load_dotenv w env_file (environ w)))
          else ([Print (''[ERROR] '' @ env_file @ '' does not exist. Please generate or provide it.'')],
                Inl (SysExit 1)))"

section \<open>The producer script at module level\<close>

text \<open>
  The schema text \<^verbatim>\<open>TRANSACTION_SCHEMA_STR\<close> as the record it describes, and the list
  \<^verbatim>\<open>required_vars\<close>, which is the same list in both scripts.
\<close>

definition TRANSACTION_SCHEMA :: avro_schema where
  "TRANSACTION_SCHEMA =
     \<lparr>schema_type = ''record'', schema_name = ''Transaction'',
      schema_namespace = ''com.example'',
      schema_fields =
        [(''transaction_id'', AvroString), (''customer_id'', AvroString),
         (''amount'', AvroFloat), (''timestamp_ms'', AvroLong)]\<rparr>"

definition required_vars :: "string list" where
  "required_vars =
     [''BOOTSTRAP_SERVER'', ''SASL_USERNAME'', ''SASL_PASSWORD'', ''TOPIC_NAME'',
      ''SCHEMA_REGISTRY_URL'', ''SCHEMA_REGISTRY_API_KEY'', ''SCHEMA_REGISTRY_API_SECRET'']"

text \<open>The module globals a script has once its top level has run to the end.\<close>

record producer_globals =
  p_BOOTSTRAP_SERVER :: "string option"
  p_SASL_USERNAME :: "string option"
  p_SASL_PASSWORD :: "string option"
  p_TOPIC_NAME :: "string option"
  p_SCHEMA_REGISTRY_URL :: "string option"
  p_SCHEMA_REGISTRY_API_KEY :: "string option"
  p_SCHEMA_REGISTRY_API_SECRET :: "string option"
  p_MESSAGE_INTERVAL :: real

text \<open>
  The producer's test for a missing variable is \<^verbatim>\<open>os.getenv(var) is None\<close>. The float
  conversion of \<^verbatim>\<open>MESSAGE_INTERVAL\<close> stands before it in the file.
  \<open>producer_configuration\<close> is the top level from \<^verbatim>\<open>load_environment_file()\<close> to the end
  of the validation (lines 129 to 157): it returns the environment and the message
  interval, or stops the process.
\<close>

definition producer_missing_vars :: "environ \<Rightarrow> string list" where
  "producer_missing_vars env = filter (\<lambda>var. env var = None) required_vars"

definition producer_configuration :: "world \<Rightarrow> event list \<times> (halt + environ \<times> real)" where
  "producer_configuration w =
     (case load_environment_file w of
        (out, Inl h) \<Rightarrow> (out, Inl h)
      | (out, Inr env) \<Rightarrow>
          (case float_of_str w (getenv_default env ''MESSAGE_INTERVAL'' ''1.0'') of
             None \<Rightarrow> (out, Inl (Uncaught ValueError))
           | Some interval \<Rightarrow>
               (let missing_vars = producer_missing_vars env
                in if missing_vars \<noteq> []
                   then (out @ [Print (''[ERROR] Missing required environment variables: ''
                                        @ join '', '' missing_vars)],
                         Inl (SysExit 1))
                   else (out, Inr (env, interval)))))"

text \<open>
  The three constructor calls of lines 160 to 186, in order. None of them is guarded: the
  first that raises ends the module with that exception, after the handles constructed
  before it.
\<close>

definition schema_registry_conf :: "environ \<Rightarrow> (string \<times> string option) list" where
  "schema_registry_conf env =
     [(''url'', env ''SCHEMA_REGISTRY_URL''),
      (''basic.auth.user.info'',
       Some (fmt (env ''SCHEMA_REGISTRY_API_KEY'') @ '':'' @ fmt (env ''SCHEMA_REGISTRY_API_SECRET'')))]"

definition producer_conf :: "environ \<Rightarrow> (string \<times> conf_val) list" where
  "producer_conf env =
     [(''bootstrap.servers'', Str (env ''BOOTSTRAP_SERVER'')),
      (''security.protocol'', Str (Some ''SASL_SSL'')),
      (''sasl.mechanism'', Str (Some ''PLAIN'')),
      (''sasl.username'', Str (env ''SASL_USERNAME'')),
      (''sasl.password'', Str (env ''SASL_PASSWORD'')),
      (''key.serializer'', StringSerializer ''utf_8''),
      (''value.serializer'', TheAvroSerializer)]"

definition producer_clients :: "world \<Rightarrow> environ \<Rightarrow> event list \<times> exc option" where
  "producer_clients w env =
     (case schema_registry_client w (schema_registry_conf env) of
        Some e \<Rightarrow> ([], Some e)
      | None \<Rightarrow>
          (case avro_serializer w TRANSACTION_SCHEMA of
             Some e \<Rightarrow> ([NewSchemaRegistryClient (schema_registry_conf env)], Some e)
           | None \<Rightarrow>
               (case serializing_producer w (producer_conf env) of
                  Some e \<Rightarrow>
                    ([NewSchemaRegistryClient (schema_registry_conf env),
                      NewAvroSerializer TRANSACTION_SCHEMA], Some e)
                | None \<Rightarrow>
                    ([NewSchemaRegistryClient (schema_registry_conf env),
                      NewAvroSerializer TRANSACTION_SCHEMA,
                      NewSerializingProducer (producer_conf env)], None))))"

definition producer_startup :: "world \<Rightarrow> event list \<times> (halt + producer_globals)" where
  "producer_startup w =
     (case producer_configuration w of
        (out, Inl h) \<Rightarrow> (out, Inl h)
      | (out, Inr (env, interval)) \<Rightarrow>
          (case producer_clients w env of
             (made, Some e) \<Rightarrow> (out @ made, Inl (Uncaught e))
           | (made, None) \<Rightarrow>
               (out @ made @ [SignalSignal SIGINT, SignalSignal SIGTERM],
                Inr \<lparr>p_BOOTSTRAP_SERVER = env ''BOOTSTRAP_SERVER'',
                     p_SASL_USERNAME = env ''SASL_USERNAME'',
                     p_SASL_PASSWORD = env ''SASL_PASSWORD'',
                     p_TOPIC_NAME = env ''TOPIC_NAME'',
                     p_SCHEMA_REGISTRY_URL = env ''SCHEMA_REGISTRY_URL'',
                     p_SCHEMA_REGISTRY_API_KEY = env ''SCHEMA_REGISTRY_API_KEY'',
                     p_SCHEMA_REGISTRY_API_SECRET = env ''SCHEMA_REGISTRY_API_SECRET'',
                     p_MESSAGE_INTERVAL = interval\<rparr>)))"

section \<open>The consumer script at module level\<close>

record consumer_globals =
  c_BOOTSTRAP_SERVER :: "string option"
  c_SASL_USERNAME :: "string option"
  c_SASL_PASSWORD :: "string option"
  c_TOPIC_NAME :: "string option"
  c_CONSUMER_GROUP :: "string option"
  c_SCHEMA_REGISTRY_URL :: "string option"
  c_SCHEMA_REGISTRY_API_KEY :: "string option"
  c_SCHEMA_REGISTRY_API_SECRET :: "string option"

text \<open>
  Python's truth test on the result of \<^verbatim>\<open>os.getenv\<close>: \<^verbatim>\<open>None\<close> and the empty string are
  false. The consumer's test for a missing variable is \<^verbatim>\<open>not os.getenv(v)\<close>.
  \<open>consumer_configuration\<close> is the top level from \<^verbatim>\<open>load_environment_file()\<close> to the
  default of the consumer group (lines 78 to 107): it returns the environment and the
  consumer group, or stops the process.
\<close>

definition truthy :: "string option \<Rightarrow> bool" where
  "truthy v = (case v of None \<Rightarrow> False | Some s \<Rightarrow> s \<noteq> [])"

definition consumer_missing_vars :: "environ \<Rightarrow> string list" where
  "consumer_missing_vars env = filter (\<lambda>v. \<not> truthy (env v)) required_vars"

definition consumer_group :: "environ \<Rightarrow> event list \<times> string option" where
  "consumer_group env =
     (if \<not> truthy (env ''CONSUMER_GROUP'')
      then ([Print (''[WARN] 'CONSUMER_GROUP' is not set. Using default: ''
                    @ ''demo-dr-consumer-group'')],
            Some ''demo-dr-consumer-group'')
      else ([], env ''CONSUMER_GROUP''))"

definition consumer_configuration ::
  "world \<Rightarrow> event list \<times> (halt + environ \<times> string option)" where
  "consumer_configuration w =
     (case load_environment_file w of
        (out, Inl h) \<Rightarrow> (out, Inl h)
      | (out, Inr env) \<Rightarrow>
          (let missing_vars = consumer_missing_vars env
           in if missing_vars \<noteq> []
              then (out @ [Print (''[ERROR] Missing environment variables: ''
                                   @ join '', '' missing_vars)],
                    Inl (SysExit 1))
              else (case consumer_group env of
                      (warn, grp) \<Rightarrow> (out @ warn, Inr (env, grp)))))"

definition consumer_conf :: "environ \<Rightarrow> string option \<Rightarrow> (string \<times> conf_val) list" where
  "consumer_conf env grp =
     [(''bootstrap.servers'', Str (env ''BOOTSTRAP_SERVER'')),
      (''security.protocol'', Str (Some ''SASL_SSL'')),
      (''sasl.mechanism'', Str (Some ''PLAIN'')),
      (''sasl.username'', Str (env ''SASL_USERNAME'')),
      (''sasl.password'', Str (env ''SASL_PASSWORD'')),
      (''key.deserializer'', StringDeserializer ''utf_8''),
      (''value.deserializer'', TheAvroDeserializer),
      (''group.id'', Str grp),
      (''auto.offset.reset'', Str (Some ''earliest''))]"

definition consumer_clients :: "world \<Rightarrow> environ \<Rightarrow> string option \<Rightarrow> event list \<times> exc option" where
  "consumer_clients w env grp =
     (case schema_registry_client w (schema_registry_conf env) of
        Some e \<Rightarrow> ([], Some e)
      | None \<Rightarrow>
          (case avro_deserializer w of
             Some e \<Rightarrow> ([NewSchemaRegistryClient (schema_registry_conf env)], Some e)
           | None \<Rightarrow>
               (case deserializing_consumer w (consumer_conf env grp) of
                  Some e \<Rightarrow>
                    ([NewSchemaRegistryClient (schema_registry_conf env),
                      NewAvroDeserializer], Some e)
                | None \<Rightarrow>
                    ([NewSchemaRegistryClient (schema_registry_conf env),
                      NewAvroDeserializer,
                      NewDeserializingConsumer (consumer_conf env grp)], None))))"

definition consumer_startup :: "world \<Rightarrow> event list \<times> (halt + consumer_globals)" where
  "consumer_startup w =
     (case consumer_configuration w of
        (out, Inl h) \<Rightarrow> (out, Inl h)
      | (out, Inr (env, grp)) \<Rightarrow>
          (case consumer_clients w env grp of
             (made, Some e) \<Rightarrow> (out @ made, Inl (Uncaught e))
           | (made, None) \<Rightarrow>
               (out @ made @ [SignalSignal SIGINT, SignalSignal SIGTERM],
                Inr \<lparr>c_BOOTSTRAP_SERVER = env ''BOOTSTRAP_SERVER'',
                     c_SASL_USERNAME = env ''SASL_USERNAME'',
                     c_SASL_PASSWORD = env ''SASL_PASSWORD'',
                     c_TOPIC_NAME = env ''TOPIC_NAME'',
                     c_CONSUMER_GROUP = grp,
                     c_SCHEMA_REGISTRY_URL = env ''SCHEMA_REGISTRY_URL'',
                     c_SCHEMA_REGISTRY_API_KEY = env ''SCHEMA_REGISTRY_API_KEY'',
                     c_SCHEMA_REGISTRY_API_SECRET = env ''SCHEMA_REGISTRY_API_SECRET''\<rparr>)))"

section \<open>Random data generation\<close>

text \<open>
  The random source is the sequence of 53-bit integers behind \<^verbatim>\<open>random.random()\<close>, read
  at a position that each draw advances: \<^verbatim>\<open>random()\<close> is that integer divided by
  \<open>2^53\<close>, a float in \<open>[0, 1)\<close>. \<^verbatim>\<open>random.choices(population, k=k)\<close> draws \<open>k\<close> times
  and takes \<^verbatim>\<open>population[floor(random() * n)]\<close> with the float \<open>n\<close> of the length;
  \<^verbatim>\<open>random.uniform(a, b)\<close> is \<^verbatim>\<open>a + (b - a) * random()\<close>. Each float operation rounds.
  \<^verbatim>\<open>round(x, 2)\<close> takes the exact value of the float \<open>x\<close>, rounds it to the nearest
  hundredth, ties to even, and returns the float nearest to that decimal.
\<close>

definition random :: "(nat \<Rightarrow> nat) \<Rightarrow> nat \<Rightarrow> real" where
  "random rng pos = real (rng pos) / 2 ^ 53"

definition choices :: "'a list \<Rightarrow> nat \<Rightarrow> (nat \<Rightarrow> nat) \<Rightarrow> nat \<Rightarrow> 'a list" where
  "choices population k rng pos =
     map (\<lambda>i. population ! nat \<lfloor>rd (random rng (pos + i) * real (length population))\<rfloor>) [0..<k]"

definition uniform :: "real \<Rightarrow> real \<Rightarrow> real \<Rightarrow> real" where
  "uniform a b r = rd (a + rd (rd (b - a) * r))"

definition round2 :: "real \<Rightarrow> real" where
  "round2 x = rd (of_int (round_half_even (x * 100)) / 100)"

text \<open>
  \<^verbatim>\<open>generate_random_transaction\<close>, given the random source, the position in it and the
  reading of \<^verbatim>\<open>time.time()\<close>; it returns the record and the new position.
\<close>

definition generate_random_transaction ::
  "(nat \<Rightarrow> nat) \<Rightarrow> nat \<Rightarrow> real \<Rightarrow> transaction \<times> nat" where
  "generate_random_transaction rng pos now =
     (\<lparr>transaction_id = choices (ascii_uppercase @ digits) 8 rng pos,
       customer_id = choices ascii_lowercase 6 rng (pos + 8),
       amount = round2 (uniform 1 1000 (random rng (pos + 14))),
       timestamp_ms = py_int (rd (now * 1000))\<rparr>,
      pos + 15)"

text \<open>Successive calls, one for each reading of the clock.\<close>

fun generate_transactions :: "(nat \<Rightarrow> nat) \<Rightarrow> nat \<Rightarrow> real list \<Rightarrow> transaction list" where
  "generate_transactions rng pos [] = []"
| "generate_transactions rng pos (now # nows) =
     (case generate_random_transaction rng pos now of
        (t, pos') \<Rightarrow> t # generate_transactions rng pos' nows)"

text \<open>A string matches \<^verbatim>\<open>[alphabet]{n}\<close>.\<close>

definition matches_class :: "string \<Rightarrow> nat \<Rightarrow> string \<Rightarrow> bool" where
  "matches_class alphabet n s = (length s = n \<and> list_all (\<lambda>c. c \<in> set alphabet) s)"

section \<open>Calls into the client library at run time\<close>

text \<open>
  A call of the client library or of \<^verbatim>\<open>time.sleep\<close> inside a main loop returns, raises an
  exception (an instance of \<^verbatim>\<open>Exception\<close>, given by its text), or is the place where a
  signal reaches the process: the handler the script installed for \<^verbatim>\<open>SIGINT\<close> and
  \<^verbatim>\<open>SIGTERM\<close> then runs when the call comes back. The handler ends with \<^verbatim>\<open>sys.exit(0)\<close>,
  which raises \<^verbatim>\<open>SystemExit\<close>; that is no instance of \<^verbatim>\<open>Exception\<close>.
\<close>

datatype 'a call = Returned 'a | Raised string | Signalled signal

record kafka_error =
  err_code :: int
  err_str :: string

text \<open>
  A message as the loops read it: its error (\<^verbatim>\<open>msg.error()\<close>), the text of its decoded
  value, its topic, partition and offset.
\<close>

record message =
  msg_error :: "kafka_error option"
  msg_value :: string
  msg_topic :: string
  msg_partition :: int
  msg_offset :: int

text \<open>The library constant \<^verbatim>\<open>KafkaError._PARTITION_EOF\<close>.\<close>

definition PARTITION_EOF :: int where
  "PARTITION_EOF = - 191"

text \<open>
  A \<^verbatim>\<open>while True\<close> loop over the outcomes of its iterations: the body returns its effects
  and either stops the process or hands the loop state to the next iteration. The list
  holds the iterations observed so far; \<open>Inr\<close> means the loop is still running after them.
\<close>

fun run_loop ::
  "('s \<Rightarrow> 'i \<Rightarrow> event list \<times> (halt + 's)) \<Rightarrow> 's \<Rightarrow> 'i list \<Rightarrow> event list \<times> (halt + 's)" where
  "run_loop body s [] = ([], Inr s)"
| "run_loop body s (x # xs) =
     (case body s x of
        (out, Inl h) \<Rightarrow> (out, Inl h)
      | (out, Inr s') \<Rightarrow> (case run_loop body s' xs of (out', r) \<Rightarrow> (out @ out', r)))"

section \<open>The producer at run time\<close>

text \<open>
  \<^verbatim>\<open>delivery_callback\<close> is called by the library with the error (or \<^verbatim>\<open>None\<close>) and the
  message of each delivery report, from inside \<^verbatim>\<open>poll\<close> and \<^verbatim>\<open>flush\<close>.
\<close>

definition delivery_callback :: "kafka_error option \<Rightarrow> message \<Rightarrow> event list" where
  "delivery_callback err msg =
     (case err of
        Some e \<Rightarrow> [Print (''[ERROR] Message failed delivery: '' @ err_str e)]
      | None \<Rightarrow>
          [Print (''[INFO] Message delivered to '' @ msg_topic msg @ '' [''
                  @ str_int (msg_partition msg) @ ''] at offset '' @ str_int (msg_offset msg))])"

definition serve_reports :: "(kafka_error option \<times> message) list \<Rightarrow> event list" where
  "serve_reports reports = concat (map (\<lambda>(err, msg). delivery_callback err msg) reports)"

text \<open>
  The producer's \<^verbatim>\<open>handle_shutdown\<close>: the notice, \<^verbatim>\<open>producer.flush(timeout=10)\<close>, which
  serves the delivery reports still pending, and \<^verbatim>\<open>sys.exit(0)\<close>.
\<close>

definition producer_handle_shutdown ::
  "(kafka_error option \<times> message) list \<Rightarrow> event list \<times> halt" where
  "producer_handle_shutdown reports =
     ([Print (CHR 0x0A # ''[INFO] Shutdown signal received. Flushing producer.''), Flush 10]
        @ serve_reports reports,
      SysExit 0)"

definition repr_transaction :: "world \<Rightarrow> transaction \<Rightarrow> string" where
  "repr_transaction w t =
     ''{'transaction_id': '' @ repr_str (transaction_id t)
     @ '', 'customer_id': '' @ repr_str (customer_id t)
     @ '', 'amount': '' @ repr_float w (amount t)
     @ '', 'timestamp_ms': '' @ str_int (timestamp_ms t) @ ''}''"

text \<open>
  What one iteration of the producer's loop meets: the reading of the clock, the outcome
  of \<^verbatim>\<open>producer.produce\<close>, of \<^verbatim>\<open>producer.poll(0)\<close> (the delivery reports it serves) and of
  \<^verbatim>\<open>time.sleep\<close>, and the reports a flush would serve if the process is shut down in this
  iteration.
\<close>

record tick =
  t_now :: real
  t_produce :: "unit call"
  t_poll :: "(kafka_error option \<times> message) list call"
  t_sleep :: "unit call"
  t_flush :: "(kafka_error option \<times> message) list"

definition caught :: "string \<Rightarrow> event" where
  "caught err = Print (''[ERROR] Exception while producing message: '' @ err)"

text \<open>
  The body of the producer's \<^verbatim>\<open>while True\<close>: the \<^verbatim>\<open>try\<close> block and its
  \<^verbatim>\<open>except Exception\<close>. The loop state is the position in the random source.
\<close>

definition produce_iteration ::
  "world \<Rightarrow> producer_globals \<Rightarrow> (nat \<Rightarrow> nat) \<Rightarrow> nat \<Rightarrow> tick \<Rightarrow> event list \<times> (halt + nat)" where
  "produce_iteration w g rng pos t =
     (case generate_random_transaction rng pos (t_now t) of
        (transaction_record, pos') \<Rightarrow>
          (case t_produce t of
             Raised err \<Rightarrow>
               ([Produce (p_TOPIC_NAME g) transaction_record, caught err], Inr pos')
           | Signalled sg \<Rightarrow>
               (Produce (p_TOPIC_NAME g) transaction_record
                  # fst (producer_handle_shutdown (t_flush t)),
                Inl (snd (producer_handle_shutdown (t_flush t))))
           | Returned u \<Rightarrow>
               (case t_poll t of
                  Raised err \<Rightarrow>
                    ([Produce (p_TOPIC_NAME g) transaction_record, ProducerPoll 0, caught err],
                     Inr pos')
                | Signalled sg \<Rightarrow>
                    ([Produce (p_TOPIC_NAME g) transaction_record, ProducerPoll 0]
                       @ fst (producer_handle_shutdown (t_flush t)),
                     Inl (snd (producer_handle_shutdown (t_flush t))))
                | Returned reports \<Rightarrow>
                    (case t_sleep t of
                       Raised err \<Rightarrow>
                         ([Produce (p_TOPIC_NAME g) transaction_record, ProducerPoll 0]
                            @ serve_reports reports
                            @ [Print (''[INFO] Produced record: ''
                                      @ repr_transaction w transaction_record),
                               Sleep (p_MESSAGE_INTERVAL g), caught err],
                          Inr pos')
                     | Signalled sg \<Rightarrow>
                         ([Produce (p_TOPIC_NAME g) transaction_record, ProducerPoll 0]
                            @ serve_reports reports
                            @ [Print (''[INFO] Produced record: ''
                                      @ repr_transaction w transaction_record),
                               Sleep (p_MESSAGE_INTERVAL g)]
                            @ fst (producer_handle_shutdown (t_flush t)),
                          Inl (snd (producer_handle_shutdown (t_flush t))))
                     | Returned u' \<Rightarrow>
                         ([Produce (p_TOPIC_NAME g) transaction_record, ProducerPoll 0]
                            @ serve_reports reports
                            @ [Print (''[INFO] Produced record: ''
                                      @ repr_transaction w transaction_record),
                               Sleep (p_MESSAGE_INTERVAL g)],
                          Inr pos')))))"

definition producer_main ::
  "world \<Rightarrow> producer_globals \<Rightarrow> (nat \<Rightarrow> nat) \<Rightarrow> tick list \<Rightarrow> event list \<times> (halt + nat)" where
  "producer_main w g rng ticks =
     (case run_loop (produce_iteration w g rng) 0 ticks of
        (out, r) \<Rightarrow>
          ([Print ''[INFO] Starting Avro producer for Confluent Cloud...'',
            Print (''[INFO] Kafka Bootstrap: '' @ fmt (p_BOOTSTRAP_SERVER g)),
            Print (''[INFO] Topic: '' @ fmt (p_TOPIC_NAME g)),
            Print (''[INFO] Schema Registry: '' @ fmt (p_SCHEMA_REGISTRY_URL g)),
            Print (''[INFO] Producing a message every '' @ repr_float w (p_MESSAGE_INTERVAL g)
                   @ '' seconds.'' @ [CHR 0x0A]),
            Print ''[INFO] Press Ctrl+C to exit.''] @ out, r))"

text \<open>The whole producer: the module level, then \<^verbatim>\<open>main()\<close>. \<open>None\<close>: still running.\<close>

definition producer_process ::
  "world \<Rightarrow> (nat \<Rightarrow> nat) \<Rightarrow> tick list \<Rightarrow> event list \<times> halt option" where
  "producer_process w rng ticks =
     (case producer_startup w of
        (out, Inl h) \<Rightarrow> (out, Some h)
      | (out, Inr g) \<Rightarrow>
          (case producer_main w g rng ticks of
             (out', Inl h) \<Rightarrow> (out @ out', Some h)
           | (out', Inr pos) \<Rightarrow> (out @ out', None)))"

section \<open>The consumer at run time\<close>

text \<open>
  The consumer's \<^verbatim>\<open>handle_shutdown\<close>: the notice, \<^verbatim>\<open>consumer.close()\<close> and
  \<^verbatim>\<open>sys.exit(0)\<close>.
\<close>

definition consumer_handle_shutdown :: "event list \<times> halt" where
  "consumer_handle_shutdown =
     ([Print (CHR 0x0A # ''[INFO] Shutdown signal received. Closing consumer.''), ConsumerClose],
      SysExit 0)"

text \<open>
  The body of the consumer's \<^verbatim>\<open>while True\<close>, given the outcome of
  \<^verbatim>\<open>consumer.poll(timeout=1.0)\<close>. The loop has no \<^verbatim>\<open>try\<close>: an exception raised by \<^verbatim>\<open>poll\<close>
  ends the process. The loop has no state.
\<close>

definition consume_iteration :: "unit \<Rightarrow> message option call \<Rightarrow> event list \<times> (halt + unit)" where
  "consume_iteration s polled =
     (case polled of
        Raised e \<Rightarrow> ([ConsumerPoll 1], Inl (Uncaught (Exception e)))
      | Signalled sg \<Rightarrow>
          (ConsumerPoll 1 # fst consumer_handle_shutdown, Inl (snd consumer_handle_shutdown))
      | Returned None \<Rightarrow> ([ConsumerPoll 1], Inr ())
      | Returned (Some msg) \<Rightarrow>
          (case msg_error msg of
             Some err \<Rightarrow>
               if err_code err = PARTITION_EOF
               then ([ConsumerPoll 1], Inr ())
               else ([ConsumerPoll 1, Print (''[ERROR] '' @ err_str err)], Inr ())
           | None \<Rightarrow>
               ([ConsumerPoll 1,
                 Print (''[INFO] Consumed record @ offset '' @ str_int (msg_offset msg)
                        @ '', partition '' @ str_int (msg_partition msg)
                        @ '': '' @ msg_value msg)],
                Inr ())))"

definition consumer_main ::
  "consumer_globals \<Rightarrow> message option call list \<Rightarrow> event list \<times> (halt + unit)" where
  "consumer_main g polls =
     (case run_loop consume_iteration () polls of
        (out, r) \<Rightarrow>
          ([Print (''[INFO] Starting Avro consumer for topic: '' @ fmt (c_TOPIC_NAME g)),
            Print (''[INFO] Kafka Bootstrap: '' @ fmt (c_BOOTSTRAP_SERVER g)),
            Print (''[INFO] Consumer Group: '' @ fmt (c_CONSUMER_GROUP g)),
            Print (''[INFO] Schema Registry: '' @ fmt (c_SCHEMA_REGISTRY_URL g)),
            Subscribe [c_TOPIC_NAME g],
            Print (''[INFO] Press Ctrl+C to exit.'' @ [CHR 0x0A])] @ out, r))"

definition consumer_process ::
  "world \<Rightarrow> message option call list \<Rightarrow> event list \<times> halt option" where
  "consumer_process w polls =
     (case consumer_startup w of
        (out, Inl h) \<Rightarrow> (out, Some h)
      | (out, Inr g) \<Rightarrow>
          (case consumer_main g polls of
             (out', Inl h) \<Rightarrow> (out @ out', Some h)
           | (out', Inr u) \<Rightarrow> (out @ out', None)))"

section \<open>Example inputs\<close>

text \<open>
  Concrete surroundings on which the theorems below are evaluated. Every file exists,
  \<^verbatim>\<open>load_dotenv\<close> adds nothing to the environment, \<^verbatim>\<open>str.lower\<close> is taken on ASCII text and
  \<^verbatim>\<open>float\<close> knows the literal \<^verbatim>\<open>1.0\<close> only. The constructors behave as the library's do
  on these configurations: \<^verbatim>\<open>SchemaRegistryClient\<close> raises \<^verbatim>\<open>ValueError\<close> unless the URL is
  a string starting with \<^verbatim>\<open>http\<close>, the producer and the consumer raise on a missing or
  empty setting, and the Avro serializer and deserializer are constructed.
\<close>

definition full_env :: environ where
  "full_env = map_of
     [(''BOOTSTRAP_SERVER'', ''pkc-12345.us-east-1.aws.confluent.cloud:9092''),
      (''SASL_USERNAME'', ''KAFKAKEY''),
      (''SASL_PASSWORD'', ''kafkasecret''),
      (''TOPIC_NAME'', ''transactions''),
      (''SCHEMA_REGISTRY_URL'', ''https://psrc-12345.us-east-1.aws.confluent.cloud''),
      (''SCHEMA_REGISTRY_API_KEY'', ''SRKEY''),
      (''SCHEMA_REGISTRY_API_SECRET'', ''srsecret'')]"

definition demo_registry :: "(string \<times> string option) list \<Rightarrow> exc option" where
  "demo_registry conf =
     (case map_of conf ''url'' of
        Some (Some u) \<Rightarrow> if take 4 u = ''http'' then None else Some ValueError
      | _ \<Rightarrow> Some ValueError)"

definition demo_client :: "(string \<times> conf_val) list \<Rightarrow> exc option" where
  "demo_client conf =
     (if list_ex (\<lambda>kv. snd kv = Str None \<or> snd kv = Str (Some [])) conf
      then Some (Exception ''KafkaException'') else None)"

definition demo_world :: "string list \<Rightarrow> environ \<Rightarrow> world" where
  "demo_world args env =
     \<lparr>argv = args, path_exists = (\<lambda>p. True), load_dotenv = (\<lambda>p e. e), environ = env,
      str_lower = ascii_lower,
      float_of_str = (\<lambda>s. if s = ''1.0'' then Some 1 else None),
      repr_float = (\<lambda>x. if x = 1 then ''1.0'' else ''4.04''),
      schema_registry_client = demo_registry,
      avro_serializer = (\<lambda>s. None),
      avro_deserializer = None,
      serializing_producer = demo_client,
      deserializing_consumer = demo_client\<rparr>"

text \<open>
  Environments with defects: one with \<^verbatim>\<open>BOOTSTRAP_SERVER\<close> unset and a
  \<^verbatim>\<open>MESSAGE_INTERVAL\<close> that is no number, one with \<^verbatim>\<open>BOOTSTRAP_SERVER\<close> unset and an empty
  \<^verbatim>\<open>SASL_PASSWORD\<close>, one whose only defect is an empty \<^verbatim>\<open>TOPIC_NAME\<close>, and one with an
  empty \<^verbatim>\<open>TOPIC_NAME\<close> and \<^verbatim>\<open>BOOTSTRAP_SERVER\<close> unset.
\<close>

definition env_bad_interval :: environ where
  "env_bad_interval = (full_env(''BOOTSTRAP_SERVER'' := None))(''MESSAGE_INTERVAL'' \<mapsto> ''abc'')"

definition env_gaps :: environ where
  "env_gaps = (full_env(''BOOTSTRAP_SERVER'' := None))(''SASL_PASSWORD'' \<mapsto> [])"

definition env_empty_topic :: environ where
  "env_empty_topic = full_env(''TOPIC_NAME'' \<mapsto> [])"

definition env_empty_topic_gap :: environ where
  "env_empty_topic_gap = (full_env(''BOOTSTRAP_SERVER'' := None))(''TOPIC_NAME'' \<mapsto> [])"

text \<open>
  A random source and a clock reading: the draws are the floats
  \<^verbatim>\<open>0.6666666666666666\<close> and, at position 14, \<^verbatim>\<open>0.003038038038038038\<close>; the clock reads
  the float \<^verbatim>\<open>1700000000.123\<close>.
\<close>

definition demo_rng :: "nat \<Rightarrow> nat" where
  "demo_rng i = (if i = 14 then 27364213952091 else 6004799503160661)"

definition demo_now :: real where
  "demo_now = 7130316800515899 / 2 ^ 22"

text \<open>Messages: an end-of-partition marker, another error, a record, a delivery report.\<close>

definition eof_msg :: message where
  "eof_msg = \<lparr>msg_error = Some \<lparr>err_code = - 191, err_str = ''Broker: No more messages''\<rparr>,
               msg_value = [], msg_topic = ''transactions'', msg_partition = 0, msg_offset = 7\<rparr>"

definition failed_msg :: message where
  "failed_msg = \<lparr>msg_error = Some \<lparr>err_code = - 185, err_str = ''Local: Timed out''\<rparr>,
                  msg_value = [], msg_topic = ''transactions'', msg_partition = 1, msg_offset = 0\<rparr>"

definition record_msg :: message where
  "record_msg = \<lparr>msg_error = None, msg_value = ''{'amount': 4.039999961853027}'',
                  msg_topic = ''transactions'', msg_partition = 2, msg_offset = 41\<rparr>"

definition demo_globals :: producer_globals where
  "demo_globals =
     \<lparr>p_BOOTSTRAP_SERVER = full_env ''BOOTSTRAP_SERVER'',
      p_SASL_USERNAME = full_env ''SASL_USERNAME'',
      p_SASL_PASSWORD = full_env ''SASL_PASSWORD'',
      p_TOPIC_NAME = full_env ''TOPIC_NAME'',
      p_SCHEMA_REGISTRY_URL = full_env ''SCHEMA_REGISTRY_URL'',
      p_SCHEMA_REGISTRY_API_KEY = full_env ''SCHEMA_REGISTRY_API_KEY'',
      p_SCHEMA_REGISTRY_API_SECRET = full_env ''SCHEMA_REGISTRY_API_SECRET'',
      p_MESSAGE_INTERVAL = 1\<rparr>"

definition demo_tick :: "unit call \<Rightarrow> (kafka_error option \<times> message) list call \<Rightarrow> unit call \<Rightarrow> tick" where
  "demo_tick produced polled slept =
     \<lparr>t_now = demo_now, t_produce = produced, t_poll = polled, t_sleep = slept, t_flush = []\<rparr>"

section \<open>Properties\<close>

subsection \<open>Rounding to the nearest float\<close>

text \<open>
  Rounding is monotone, odd, and exact on the numbers that are floats; between two powers
  of two it stays between them.
\<close>

lemma rhe_bounds: "\<lfloor>y\<rfloor> \<le> round_half_even y \<and> round_half_even y \<le> \<lfloor>y\<rfloor> + 1"
  by (simp add: round_half_even_def Let_def)

lemma rhe_of_int [simp]: "round_half_even (of_int n) = n"
  by (simp add: round_half_even_def)

lemma rhe_mono:
  assumes "a \<le> b"
  shows "round_half_even a \<le> round_half_even b"
proof (cases "\<lfloor>a\<rfloor> = \<lfloor>b\<rfloor>")
  case True
  have "a - of_int \<lfloor>a\<rfloor> \<le> b - of_int \<lfloor>b\<rfloor>" using assms True by simp
  then show ?thesis using True by (auto simp: round_half_even_def Let_def)
next
  case False
  have "\<lfloor>a\<rfloor> \<le> \<lfloor>b\<rfloor>" using assms by (rule floor_mono)
  then have "\<lfloor>a\<rfloor> + 1 \<le> \<lfloor>b\<rfloor>" using False by linarith
  then show ?thesis using rhe_bounds [of a] rhe_bounds [of b] by linarith
qed

lemma rhe_below_half:
  assumes "y < of_int m - 1 / 2"
  shows "round_half_even y \<le> m - 1"
proof -
  have f: "\<lfloor>y\<rfloor> \<le> m - 1"
  proof -
    have "y < of_int m" using assms by linarith
    then have "\<lfloor>y\<rfloor> < m" by (simp add: floor_less_iff)
    then show ?thesis by linarith
  qed
  show ?thesis
  proof (cases "\<lfloor>y\<rfloor> = m - 1")
    case True
    have "y - of_int \<lfloor>y\<rfloor> < 1 / 2" using assms True by simp
    then show ?thesis using True by (simp add: round_half_even_def Let_def)
  next
    case False
    then have "\<lfloor>y\<rfloor> + 1 \<le> m - 1" using f by linarith
    then show ?thesis using rhe_bounds [of y] by linarith
  qed
qed

lemma rhe_minus: "round_half_even (- y) = - round_half_even y"
proof (cases "y = of_int \<lfloor>y\<rfloor>")
  case True
  then obtain n :: int where n: "y = of_int n" by blast
  have "- y = of_int (- n)" using n by simp
  then have "round_half_even (- y) = - n" using rhe_of_int [of "- n"] by simp
  then show ?thesis using n by simp
next
  case False
  let ?f = "\<lfloor>y\<rfloor>"
  have lo: "of_int ?f < y" using False of_int_floor_le [of y] by linarith
  have hi: "y < of_int ?f + 1" by linarith
  have fm: "\<lfloor>- y\<rfloor> = - ?f - 1"
  proof (rule floor_unique)
    have c: "(of_int (- ?f - 1) :: real) = - of_int ?f - 1" by simp
    show "of_int (- ?f - 1) \<le> - y" unfolding c using hi by linarith
    show "- y < of_int (- ?f - 1) + 1" unfolding c using lo by linarith
  qed
  have dm: "- y - of_int \<lfloor>- y\<rfloor> = 1 - (y - of_int ?f)" by (simp add: fm)
  have ev: "even (- ?f - 1) = odd ?f" by simp
  show ?thesis
    unfolding round_half_even_def Let_def dm unfolding fm ev
    using lo hi by (auto simp: field_simps)
qed

lemma exponent_bounds:
  assumes "0 < x"
  shows "2 powr of_int (exponent x) \<le> x \<and> x < 2 powr (of_int (exponent x) + 1)"
proof -
  have lo: "of_int (exponent x) \<le> log 2 x" using assms by (simp add: exponent_def)
  have hi: "log 2 x < of_int (exponent x) + 1" using assms by (simp add: exponent_def)
  have a: "2 powr of_int (exponent x) \<le> x"
    using lo assms by (simp add: le_log_iff)
  have b: "x < 2 powr (of_int (exponent x) + 1)"
    using hi assms by (simp add: log_less_iff)
  show ?thesis using a b by simp
qed

lemma exponent_eqI:
  assumes "2 powr of_int e \<le> \<bar>x\<bar>" and "\<bar>x\<bar> < 2 powr (of_int e + 1)"
  shows "exponent x = e"
proof -
  have p: "0 < \<bar>x\<bar>" using assms(1) by (smt (verit) powr_gt_zero)
  have lo: "of_int e \<le> log 2 \<bar>x\<bar>" using assms(1) p by (simp add: le_log_iff)
  have hi: "log 2 \<bar>x\<bar> < of_int e + 1" using assms(2) p by (simp add: log_less_iff)
  show ?thesis unfolding exponent_def using lo hi by (intro floor_unique) auto
qed

lemma exponent_mono:
  assumes "0 < x" and "x \<le> y"
  shows "exponent x \<le> exponent y"
proof -
  have "log 2 x \<le> log 2 y" using assms by simp
  then show ?thesis using assms by (simp add: exponent_def floor_mono)
qed

lemma exponent_minus [simp]: "exponent (- x) = exponent x"
  by (simp add: exponent_def)

lemma ulp_minus [simp]: "ulp (- x) = ulp x"
  by (simp add: ulp_def)

lemma ulp_pos [simp]: "0 < ulp x"
  by (simp add: ulp_def)

lemma ulp_nonzero [simp]: "ulp x \<noteq> 0"
  by (simp add: ulp_def)

lemma ulp_nonneg [simp]: "0 \<le> ulp x"
  by (simp add: ulp_def)

lemma rhe_numeral [simp]: "round_half_even (numeral n) = numeral n"
  using rhe_of_int [of "numeral n"] by simp

lemma scaled_bounds:
  assumes "0 < x"
  shows "2 powr 52 \<le> x / ulp x \<and> x / ulp x < 2 powr 53"
proof -
  let ?e = "of_int (exponent x) :: real"
  have u: "x / ulp x = x * 2 powr (52 - ?e)"
    by (simp add: ulp_def powr_diff field_simps)
  have a: "2 powr ?e * 2 powr (52 - ?e) \<le> x * 2 powr (52 - ?e)"
    using exponent_bounds [OF assms] by (simp add: mult_right_mono)
  have b: "x * 2 powr (52 - ?e) < 2 powr (?e + 1) * 2 powr (52 - ?e)"
    using exponent_bounds [OF assms] by (simp add: mult_strict_right_mono)
  have c: "2 powr ?e * 2 powr (52 - ?e) = 2 powr 52"
    by (simp flip: powr_add)
  have d: "2 powr (?e + 1) * 2 powr (52 - ?e) = 2 powr 53"
    by (simp flip: powr_add)
  show ?thesis using a b unfolding u c d by simp
qed

lemma rd_zero [simp]: "rd 0 = 0"
  by (simp add: rd_def)

lemma rd_minus: "rd (- x) = - rd x"
  by (simp add: rd_def rhe_minus)

lemma rd_pos_bounds:
  assumes "0 < x"
  shows "2 powr of_int (exponent x) \<le> rd x \<and> rd x \<le> 2 powr (of_int (exponent x) + 1)"
proof -
  let ?e = "of_int (exponent x) :: real"
  let ?q = "round_half_even (x / ulp x)"
  have p52: "(2::real) powr 52 = of_int (2 ^ 52)" by simp
  have p53: "(2::real) powr 53 = of_int (2 ^ 53)" by simp
  have "round_half_even (of_int (2 ^ 52)) \<le> ?q"
    using scaled_bounds [OF assms] unfolding p52 by (intro rhe_mono) simp
  then have lo: "(2::real) powr 52 \<le> of_int ?q" unfolding p52 by simp
  have "?q \<le> round_half_even (of_int (2 ^ 53))"
    using scaled_bounds [OF assms] unfolding p53 by (intro rhe_mono) simp
  then have hi: "of_int ?q \<le> (2::real) powr 53" unfolding p53 by simp
  have r: "rd x = of_int ?q * ulp x" using assms by (simp add: rd_def)
  have a: "2 powr 52 * ulp x \<le> of_int ?q * ulp x"
    using lo by (simp add: mult_right_mono)
  have b: "of_int ?q * ulp x \<le> 2 powr 53 * ulp x"
    using hi by (simp add: mult_right_mono)
  have c: "2 powr 52 * ulp x = 2 powr ?e"
  proof -
    have "(2::real) powr 52 * 2 powr (?e - 52) = 2 powr (52 + (?e - 52))"
      by (rule powr_add [symmetric])
    then show ?thesis by (simp only: ulp_def) simp
  qed
  have d: "2 powr 53 * ulp x = 2 powr (?e + 1)"
  proof -
    have "(2::real) powr 53 * 2 powr (?e - 52) = 2 powr (53 + (?e - 52))"
      by (rule powr_add [symmetric])
    moreover have "53 + (?e - 52) = ?e + 1" by simp
    ultimately show ?thesis by (simp only: ulp_def)
  qed
  show ?thesis using a b unfolding r c d by simp
qed

lemma rd_mono_pos:
  assumes "0 < x" and "x \<le> y"
  shows "rd x \<le> rd y"
proof (cases "exponent x = exponent y")
  case True
  have u: "ulp x = ulp y" using True by (simp add: ulp_def)
  have "x / ulp y \<le> y / ulp y" using assms(2) by (intro divide_right_mono) simp_all
  then have "round_half_even (x / ulp y) \<le> round_half_even (y / ulp y)" by (rule rhe_mono)
  then have "of_int (round_half_even (x / ulp y)) * ulp y
       \<le> of_int (round_half_even (y / ulp y)) * ulp y"
    by (simp add: mult_right_mono)
  then show ?thesis using assms by (simp add: rd_def u)
next
  case False
  have y: "0 < y" using assms by simp
  have "exponent x \<le> exponent y" using assms by (rule exponent_mono)
  then have "exponent x + 1 \<le> exponent y" using False by linarith
  then have "(of_int (exponent x) + 1 :: real) \<le> of_int (exponent y)" by linarith
  then have "(2::real) powr (of_int (exponent x) + 1) \<le> 2 powr of_int (exponent y)"
    by (simp add: powr_mono)
  then show ?thesis using rd_pos_bounds [OF assms(1)] rd_pos_bounds [OF y] by linarith
qed

lemma rd_nonneg:
  assumes "0 \<le> x"
  shows "0 \<le> rd x"
proof (cases "x = 0")
  case True
  then show ?thesis by simp
next
  case False
  then have "0 < x" using assms by simp
  then have "2 powr of_int (exponent x) \<le> rd x" using rd_pos_bounds by blast
  moreover have "(0::real) < 2 powr of_int (exponent x)" by simp
  ultimately show ?thesis by linarith
qed

lemma rd_mono:
  assumes "x \<le> y"
  shows "rd x \<le> rd y"
proof -
  consider "0 < x" | "x \<le> 0" "0 \<le> y" | "y < 0" by linarith
  then show ?thesis
  proof cases
    case 1
    then show ?thesis using assms by (rule rd_mono_pos)
  next
    case 2
    have "0 \<le> rd (- x)" using 2(1) by (intro rd_nonneg) simp
    then have "rd x \<le> 0" by (simp add: rd_minus)
    moreover have "0 \<le> rd y" using 2(2) by (rule rd_nonneg)
    ultimately show ?thesis by linarith
  next
    case 3
    have "rd (- y) \<le> rd (- x)" using 3 assms by (intro rd_mono_pos) simp_all
    then show ?thesis by (simp add: rd_minus)
  qed
qed

lemma rd_exactI:
  assumes "2 powr of_int e \<le> \<bar>x\<bar>" and "\<bar>x\<bar> < 2 powr (of_int e + 1)"
    and "x * 2 powr (52 - of_int e) = of_int m"
  shows "rd x = x"
proof -
  have e: "exponent x = e" using assms(1,2) by (rule exponent_eqI)
  have nz: "x \<noteq> 0" using assms(1) by (smt (verit) powr_gt_zero)
  have s: "x / ulp x = of_int m"
    using assms(3) by (simp add: ulp_def e powr_diff field_simps)
  have "rd x = of_int m * ulp x" using nz by (simp add: rd_def s)
  also have "\<dots> = x / ulp x * ulp x" by (simp add: s)
  also have "\<dots> = x" by simp
  finally show ?thesis .
qed

lemma rd_1: "rd 1 = 1"
  by (rule rd_exactI [where e = 0 and m = "2 ^ 52"]) simp_all

lemma rd_999: "rd 999 = 999"
  by (rule rd_exactI [where e = 9 and m = "999 * 2 ^ 43"]) simp_all

lemma rd_1000: "rd 1000 = 1000"
  by (rule rd_exactI [where e = 9 and m = "1000 * 2 ^ 43"]) simp_all

text \<open>
  The index \<^verbatim>\<open>floor(random() * n)\<close> stays below \<open>n\<close>: the product of a draw
  \<open>k / 2^53\<close> with \<open>n\<close> is at most \<open>n - n / 2^53\<close>, which is more than half a gap
  below \<open>n\<close> when \<open>n\<close> is not a power of two, so it is not rounded up to \<open>n\<close>.
\<close>

lemma index_in_range:
  fixes N :: real
  assumes k: "k < (2::nat) ^ 53"
    and j1: "2 powr of_int j < N" and j2: "N < 2 powr (of_int j + 1)"
    and m: "N * 2 powr (52 - of_int j) = of_int M"
  shows "0 \<le> rd (real k / 2 ^ 53 * N) \<and> rd (real k / 2 ^ 53 * N) < N"
proof -
  define x where "x = real k / 2 ^ 53 * N"
  have Npos: "0 < N" using j1 by (smt (verit) powr_gt_zero)
  have x0: "0 \<le> x" using Npos by (simp add: x_def)
  have k': "real k \<le> 2 ^ 53 - 1"
  proof -
    have "k + 1 \<le> 2 ^ 53" using k by simp
    then have "real (k + 1) \<le> real ((2::nat) ^ 53)" by (rule of_nat_mono)
    then show ?thesis by simp
  qed
  have xle: "x \<le> N - N / 2 ^ 53"
  proof -
    have "real k / 2 ^ 53 \<le> (2 ^ 53 - 1) / 2 ^ 53" using k' by (simp add: divide_right_mono)
    then have "real k / 2 ^ 53 * N \<le> (2 ^ 53 - 1) / 2 ^ 53 * N"
      using Npos by (simp add: mult_right_mono)
    also have "(2 ^ 53 - 1) / 2 ^ 53 * N = N - N / 2 ^ 53" by (simp add: field_simps)
    finally show ?thesis by (simp only: x_def)
  qed
  have xlt: "x < N" using xle Npos by (smt (verit) divide_pos_pos zero_less_numeral zero_less_power)
  have lo: "0 \<le> rd x" using x0 by (rule rd_nonneg)
  have hi: "rd x < N"
  proof (cases "x = 0")
    case True
    then show ?thesis using Npos by simp
  next
    case False
    then have xpos: "0 < x" using x0 by linarith
    have "(2::real) powr of_int (exponent x) < 2 powr (of_int j + 1)"
      using exponent_bounds [OF xpos] xlt j2 by linarith
    then have "of_int (exponent x) < (of_int j + 1 :: real)" by simp
    then have ej: "exponent x \<le> j" by linarith
    show ?thesis
    proof (cases "exponent x = j")
      case False
      then have "exponent x + 1 \<le> j" using ej by linarith
      then have "(of_int (exponent x) + 1 :: real) \<le> of_int j" by linarith
      then have "(2::real) powr (of_int (exponent x) + 1) \<le> 2 powr of_int j"
        by (simp add: powr_mono)
      then show ?thesis using rd_pos_bounds [OF xpos] j1 by linarith
    next
      case True
      have u: "ulp x = 2 powr (of_int j - 52)" by (simp only: ulp_def True)
      have inv: "1 / ulp x = 2 powr (52 - of_int j)"
        unfolding u by (simp add: powr_diff)
      have s: "x / ulp x = x * 2 powr (52 - of_int j)"
        using inv by (simp add: field_simps)
      have half: "1 / 2 < N / 2 ^ 53 * 2 powr (52 - of_int j)"
      proof -
        have "(2::real) powr (52 - of_int j) / 2 ^ 53 = 2 powr (52 - of_int j) / 2 powr 53"
          by simp
        also have "\<dots> = 2 powr (52 - of_int j - 53)" by (rule powr_diff [symmetric])
        also have "\<dots> = 2 powr (- of_int j - 1)"
        proof -
          have "(52 - of_int j - 53 :: real) = - of_int j - 1" by linarith
          then show ?thesis by (simp only:)
        qed
        also have "\<dots> = 2 powr (- of_int j) / 2" by (simp add: powr_diff)
        finally have e: "(2::real) powr (52 - of_int j) / 2 ^ 53 = 2 powr (- of_int j) / 2" .
        have "(1::real) = 2 powr of_int j * 2 powr (- of_int j)" by (simp flip: powr_add)
        also have "\<dots> < N * 2 powr (- of_int j)" using j1 by (simp add: mult_strict_right_mono)
        finally have "1 / 2 < N * (2 powr (- of_int j) / 2)" by simp
        then have "1 / 2 < N * (2 powr (52 - of_int j) / 2 ^ 53)" by (simp only: e)
        then show ?thesis by (simp add: field_simps)
      qed
      have "x * 2 powr (52 - of_int j) \<le> (N - N / 2 ^ 53) * 2 powr (52 - of_int j)"
        using xle by (simp add: mult_right_mono)
      also have "\<dots> = of_int M - N / 2 ^ 53 * 2 powr (52 - of_int j)"
        using m by (simp add: algebra_simps)
      also have "\<dots> < of_int M - 1 / 2" using half by linarith
      finally have "x / ulp x < of_int M - 1 / 2" by (simp only: s)
      then have q: "round_half_even (x / ulp x) \<le> M - 1" by (rule rhe_below_half)
      have Mu: "of_int M * ulp x = N"
      proof -
        have "of_int M * ulp x = N * (2 powr (52 - of_int j) * 2 powr (of_int j - 52))"
          using m by (simp add: u)
        also have "2 powr (52 - of_int j) * 2 powr (of_int j - 52) = (1::real)"
          by (simp flip: powr_add)
        finally show ?thesis by simp
      qed
      have "rd x = of_int (round_half_even (x / ulp x)) * ulp x"
        using False by (simp add: rd_def)
      also have "\<dots> \<le> of_int (M - 1) * ulp x"
        using q by (intro mult_right_mono) simp_all
      also have "\<dots> = N - ulp x" using Mu by (simp add: algebra_simps)
      also have "\<dots> < N" using ulp_pos [of x] by linarith
      finally show ?thesis .
    qed
  qed
  show ?thesis using lo hi by (simp only: x_def)
qed

lemma index_36:
  assumes "k < (2::nat) ^ 53"
  shows "nat \<lfloor>rd (real k / 2 ^ 53 * 36)\<rfloor> < 36"
proof -
  have r: "0 \<le> rd (real k / 2 ^ 53 * 36) \<and> rd (real k / 2 ^ 53 * 36) < 36"
    by (rule index_in_range [OF assms, where j = 5 and M = "36 * 2 ^ 47"]) simp_all
  then have "\<lfloor>rd (real k / 2 ^ 53 * 36)\<rfloor> < 36" by (simp add: floor_less_iff)
  then show ?thesis by linarith
qed

lemma index_26:
  assumes "k < (2::nat) ^ 53"
  shows "nat \<lfloor>rd (real k / 2 ^ 53 * 26)\<rfloor> < 26"
proof -
  have r: "0 \<le> rd (real k / 2 ^ 53 * 26) \<and> rd (real k / 2 ^ 53 * 26) < 26"
    by (rule index_in_range [OF assms, where j = 4 and M = "26 * 2 ^ 48"]) simp_all
  then have "\<lfloor>rd (real k / 2 ^ 53 * 26)\<rfloor> < 26" by (simp add: floor_less_iff)
  then show ?thesis by linarith
qed

lemma rd_evalI:
  assumes "2 powr of_int e \<le> \<bar>x\<bar>" and "\<bar>x\<bar> < 2 powr (of_int e + 1)"
    and "round_half_even (x * 2 powr (52 - of_int e)) = q"
  shows "rd x = of_int q / 2 powr (52 - of_int e)"
proof -
  have e: "exponent x = e" using assms(1,2) by (rule exponent_eqI)
  have nz: "x \<noteq> 0" using assms(1) by (smt (verit) powr_gt_zero)
  have s: "x / ulp x = x * 2 powr (52 - of_int e)"
    by (simp add: ulp_def e powr_diff field_simps)
  have u: "ulp x = 1 / 2 powr (52 - of_int e)"
    by (simp add: ulp_def e powr_diff)
  show ?thesis using nz assms(3) by (simp add: rd_def s) (simp add: u)
qed

subsection \<open>Facts about the generator\<close>

lemma choices_matches:
  assumes "\<And>i. nat \<lfloor>rd (random rng i * real (length population))\<rfloor> < length population"
  shows "matches_class population k (choices population k rng pos)"
  by (simp add: matches_class_def choices_def list_all_iff assms)

lemma random_range:
  assumes "\<forall>i. rng i < 2 ^ 53"
  shows "0 \<le> random rng i \<and> random rng i < 1"
proof -
  have "real (rng i) < real ((2::nat) ^ 53)" using assms by (intro of_nat_less_iff [THEN iffD2]) simp
  then show ?thesis by (simp add: random_def)
qed

lemma uniform_bounds:
  assumes "0 \<le> r" and "r < 1"
  shows "1 \<le> uniform 1 1000 r \<and> uniform 1 1000 r \<le> 1000"
proof -
  have a: "0 \<le> 999 * r" and b: "999 * r \<le> 999" using assms by simp_all
  have "rd 0 \<le> rd (999 * r)" using a by (rule rd_mono)
  moreover have "rd (999 * r) \<le> rd 999" using b by (rule rd_mono)
  ultimately have p: "0 \<le> rd (999 * r)" "rd (999 * r) \<le> 999" by (simp_all add: rd_999)
  then have "1 \<le> 1 + rd (999 * r)" "1 + rd (999 * r) \<le> 1000" by simp_all
  then have "rd 1 \<le> rd (1 + rd (999 * r))" "rd (1 + rd (999 * r)) \<le> rd 1000"
    by (simp_all only: rd_mono)
  then show ?thesis by (simp add: uniform_def rd_999 rd_1 rd_1000)
qed

lemma round2_bounds:
  assumes "1 \<le> x" and "x \<le> 1000"
  shows "1 \<le> round2 x \<and> round2 x \<le> 1000"
proof -
  have "(100::real) \<le> x * 100" "x * 100 \<le> 100000" using assms by simp_all
  then have "round_half_even 100 \<le> round_half_even (x * 100)"
    "round_half_even (x * 100) \<le> round_half_even 100000"
    by (simp_all only: rhe_mono)
  then have "100 \<le> round_half_even (x * 100)" "round_half_even (x * 100) \<le> 100000"
    by simp_all
  then have "(100::real) \<le> of_int (round_half_even (x * 100))"
    "of_int (round_half_even (x * 100)) \<le> (100000::real)" by linarith+
  then have "(1::real) \<le> of_int (round_half_even (x * 100)) / 100"
    "of_int (round_half_even (x * 100)) / 100 \<le> (1000::real)" by simp_all
  then have "rd 1 \<le> rd (of_int (round_half_even (x * 100)) / 100)"
    "rd (of_int (round_half_even (x * 100)) / 100) \<le> rd 1000"
    by (simp_all only: rd_mono)
  then show ?thesis by (simp add: round2_def rd_1 rd_1000)
qed

lemma py_int_mono:
  assumes "x \<le> y"
  shows "py_int x \<le> py_int y"
proof (cases "0 \<le> x")
  case True
  then show ?thesis using assms by (simp add: py_int_def floor_mono)
next
  case False
  show ?thesis
  proof (cases "0 \<le> y")
    case True
    have a: "\<lceil>x\<rceil> \<le> 0" using False by (simp add: ceiling_le_iff)
    have b: "0 \<le> \<lfloor>y\<rfloor>" using True by simp
    have "py_int x = \<lceil>x\<rceil>" using False by (simp add: py_int_def)
    moreover have "py_int y = \<lfloor>y\<rfloor>" using True by (simp add: py_int_def)
    ultimately show ?thesis using a b by linarith
  next
    case n: False
    then show ?thesis using False assms by (simp add: py_int_def ceiling_mono)
  qed
qed

lemma timestamps_of_calls:
  "map timestamp_ms (generate_transactions rng pos nows)
     = map (\<lambda>now. py_int (rd (now * 1000))) nows"
  by (induction nows arbitrary: pos) (simp_all add: generate_random_transaction_def)

lemma timestamps_sorted:
  assumes "sorted nows"
  shows "sorted (map timestamp_ms (generate_transactions rng pos nows))"
proof -
  have m: "py_int (rd (a * 1000)) \<le> py_int (rd (b * 1000))" if "a \<le> b" for a b :: real
    using that by (intro py_int_mono rd_mono) simp
  have "sorted (map (\<lambda>now. py_int (rd (now * 1000))) nows)"
    using assms by (induction nows) (auto intro: m)
  then show ?thesis by (simp add: timestamps_of_calls)
qed

lemma rd_t0: "rd 1700000000000 = 1700000000000"
  by (rule rd_exactI [where e = 40 and m = "1700000000000 * 2 ^ 12"]) simp_all

lemma rd_t1: "rd 1700000001000 = 1700000001000"
  by (rule rd_exactI [where e = 40 and m = "1700000001000 * 2 ^ 12"]) simp_all

lemma rd_two_thirds: "rd (6004799503160661 / 2 ^ 53 * 36) = 24"
proof -
  have "rd (6004799503160661 / 2 ^ 53 * 36) = of_int (24 * 2 ^ 48) / 2 powr (52 - of_int 4)"
    by (rule rd_evalI) (simp_all add: round_half_even_def)
  then show ?thesis by simp
qed

text \<open>
  The record generated from the example draws and clock reading, float operation by float
  operation; CPython computes the same values.
\<close>

lemma rd_demo_26: "rd (6004799503160661 / 2 ^ 53 * 26) = 4878899596318037 / 2 ^ 48"
proof -
  have "rd (6004799503160661 / 2 ^ 53 * 26) = of_int 4878899596318037 / 2 powr (52 - of_int 4)"
    by (rule rd_evalI) (simp_all add: round_half_even_def)
  then show ?thesis by simp
qed

lemma rd_demo_mul: "rd (999 * (27364213952091 / 2 ^ 53)) = 6834212434534727 / 2 ^ 51"
proof -
  have "rd (999 * (27364213952091 / 2 ^ 53)) = of_int 6834212434534727 / 2 powr (52 - of_int 1)"
    by (rule rd_evalI) (simp_all add: round_half_even_def)
  then show ?thesis by simp
qed

lemma rd_demo_add: "rd (1 + 6834212434534727 / 2 ^ 51) = 1135751531027497 / 2 ^ 48"
proof -
  have "rd (1 + 6834212434534727 / 2 ^ 51) = of_int 4543006124109988 / 2 powr (52 - of_int 2)"
    by (rule rd_evalI) (simp_all add: round_half_even_def)
  then show ?thesis by simp
qed

lemma rhe_demo: "round_half_even (1135751531027497 / 2 ^ 48 * 100) = 404"
  by (simp add: round_half_even_def)

lemma rd_demo_amount: "rd (404 / 100) = 4548635623644201 / 2 ^ 50"
proof -
  have "rd (404 / 100) = of_int 4548635623644201 / 2 powr (52 - of_int 2)"
    by (rule rd_evalI) (simp_all add: round_half_even_def)
  then show ?thesis by simp
qed

lemma rd_demo_now: "rd (7130316800515899 / 2 ^ 22 * 1000) = 1700000000123"
proof -
  have "rd (7130316800515899 / 2 ^ 22 * 1000) = of_int 6963200000503808 / 2 powr (52 - of_int 40)"
    by (rule rd_evalI) (simp_all add: round_half_even_def)
  then show ?thesis by simp
qed

lemma choices_const:
  assumes "\<And>i. i < k \<Longrightarrow>
      nat \<lfloor>rd (random rng (pos + i) * real (length population))\<rfloor> = n"
  shows "choices population k rng pos = replicate k (population ! n)"
proof -
  have "map (\<lambda>i. population ! nat \<lfloor>rd (random rng (pos + i) * real (length population))\<rfloor>)
          [0..<k] = map (\<lambda>i. population ! n) [0..<k]"
    by (rule map_cong) (simp_all add: assms)
  then show ?thesis by (simp add: choices_def map_replicate_const)
qed

lemma demo_index_36:
  assumes "i \<noteq> 14"
  shows "nat \<lfloor>rd (random demo_rng i * real (length (ascii_uppercase @ digits)))\<rfloor> = 24"
proof -
  have "random demo_rng i * real (length (ascii_uppercase @ digits))
      = 6004799503160661 / 2 ^ 53 * 36"
    using assms by (simp add: random_def demo_rng_def ascii_uppercase_def digits_def)
  then have e: "rd (random demo_rng i * real (length (ascii_uppercase @ digits))) = 24"
    by (simp only: rd_two_thirds)
  show ?thesis unfolding e by simp
qed

lemma demo_index_26:
  assumes "i \<noteq> 14"
  shows "nat \<lfloor>rd (random demo_rng i * real (length ascii_lowercase))\<rfloor> = 17"
proof -
  have "random demo_rng i * real (length ascii_lowercase) = 6004799503160661 / 2 ^ 53 * 26"
    using assms by (simp add: random_def demo_rng_def ascii_lowercase_def)
  then have e: "rd (random demo_rng i * real (length ascii_lowercase))
      = 4878899596318037 / 2 ^ 48"
    by (simp only: rd_demo_26)
  show ?thesis unfolding e by simp
qed

lemma demo_ids:
  "choices (ascii_uppercase @ digits) 8 demo_rng 0 = ''YYYYYYYY''"
  "choices ascii_lowercase 6 demo_rng 8 = ''rrrrrr''"
proof -
  have "choices (ascii_uppercase @ digits) 8 demo_rng 0
      = replicate 8 ((ascii_uppercase @ digits) ! 24)"
    by (rule choices_const) (rule demo_index_36, simp)
  then show "choices (ascii_uppercase @ digits) 8 demo_rng 0 = ''YYYYYYYY''"
    by (simp add: ascii_uppercase_def digits_def eval_nat_numeral)
  have "choices ascii_lowercase 6 demo_rng 8 = replicate 6 (ascii_lowercase ! 17)"
    by (rule choices_const) (rule demo_index_26, simp)
  then show "choices ascii_lowercase 6 demo_rng 8 = ''rrrrrr''"
    by (simp add: ascii_lowercase_def eval_nat_numeral)
qed

lemma demo_amount:
  "round2 (uniform 1 1000 (random demo_rng 14)) = 4548635623644201 / 2 ^ 50"
proof -
  have r14: "random demo_rng 14 = 27364213952091 / 2 ^ 53"
    by (simp add: random_def demo_rng_def)
  have d: "(1000::real) - 1 = 999" by simp
  have u: "uniform 1 1000 (random demo_rng 14) = 1135751531027497 / 2 ^ 48"
    by (simp only: uniform_def r14 d rd_999 rd_demo_mul rd_demo_add)
  have q: "(of_int 404 :: real) = 404" by simp
  show ?thesis
    by (simp only: u round2_def rhe_demo q rd_demo_amount)
qed

lemma demo_timestamp: "py_int (rd (demo_now * 1000)) = 1700000000123"
proof -
  have "rd (demo_now * 1000) = 1700000000123"
    by (simp only: demo_now_def rd_demo_now)
  then show ?thesis by (simp add: py_int_def)
qed

lemma demo_record:
  "fst (generate_random_transaction demo_rng 0 demo_now)
     = \<lparr>transaction_id = ''YYYYYYYY'', customer_id = ''rrrrrr'',
        amount = 4548635623644201 / 2 ^ 50, timestamp_ms = 1700000000123\<rparr>"
proof -
  have a: "round2 (uniform 1 1000 (random demo_rng (0 + 14))) = 4548635623644201 / 2 ^ 50"
    using demo_amount by simp
  have c: "choices ascii_lowercase 6 demo_rng (0 + 8) = ''rrrrrr''"
    using demo_ids(2) by simp
  show ?thesis
    by (simp only: generate_random_transaction_def fst_conv demo_ids(1) c a demo_timestamp)
qed

subsection \<open>Facts about the module level\<close>

lemmas startup_defs =
  producer_startup_def consumer_startup_def producer_configuration_def
  consumer_configuration_def load_environment_file_def demo_world_def
  full_env_def required_vars_def ascii_lower_def lower_char_def ascii_uppercase_def
  ascii_lowercase_def getenv_default_def producer_missing_vars_def consumer_missing_vars_def
  truthy_def producer_clients_def consumer_clients_def consumer_group_def fmt_def
  schema_registry_conf_def producer_conf_def consumer_conf_def demo_registry_def
  demo_client_def

lemma load_ok_out:
  assumes "load_environment_file w = (out, Inr env)"
  shows "\<exists>f. out = [LoadDotenv f, Print (''[INFO] Loaded environment from '' @ f)]"
  using assms
  by (auto simp: load_environment_file_def Let_def split: if_splits sum.splits)

lemma load_no_clients:
  assumes "load_environment_file w = (out, r)"
  shows "\<not> list_ex is_client_construction out"
  using assms
  by (auto simp: load_environment_file_def Let_def split: if_splits sum.splits)

lemma printed_append: "printed (xs @ ys) = printed xs @ printed ys"
  by (induction xs rule: printed.induct) simp_all

lemma printed_producer_clients: "printed (fst (producer_clients w env)) = []"
  by (simp add: producer_clients_def split: option.splits)

lemma printed_consumer_clients: "printed (fst (consumer_clients w env grp)) = []"
  by (simp add: consumer_clients_def split: option.splits)

lemma producer_startup_halt:
  assumes "producer_configuration w = (out, Inl h)"
  shows "producer_startup w = (out, Inl h)"
  using assms by (simp add: producer_startup_def)

lemma consumer_startup_halt:
  assumes "consumer_configuration w = (out, Inl h)"
  shows "consumer_startup w = (out, Inl h)"
  using assms by (simp add: consumer_startup_def)

lemma producer_startup_printed:
  assumes "producer_configuration w = (out, r)"
  shows "printed (fst (producer_startup w)) = printed out"
proof (cases r)
  case (Inl h)
  then show ?thesis using assms by (simp add: producer_startup_def)
next
  case (Inr p)
  obtain env interval where p: "p = (env, interval)" by (cases p)
  obtain made e where m: "producer_clients w env = (made, e)"
    by (cases "producer_clients w env")
  have "printed made = []" using printed_producer_clients [of w env] by (simp add: m)
  then show ?thesis
    using assms Inr p m
    by (cases e) (simp_all add: producer_startup_def printed_append)
qed

lemma consumer_startup_printed:
  assumes "consumer_configuration w = (out, r)"
  shows "printed (fst (consumer_startup w)) = printed out"
proof (cases r)
  case (Inl h)
  then show ?thesis using assms by (simp add: consumer_startup_def)
next
  case (Inr p)
  obtain env grp where p: "p = (env, grp)" by (cases p)
  obtain made e where m: "consumer_clients w env grp = (made, e)"
    by (cases "consumer_clients w env grp")
  have "printed made = []" using printed_consumer_clients [of w env grp] by (simp add: m)
  then show ?thesis
    using assms Inr p m
    by (cases e) (simp_all add: consumer_startup_def printed_append)
qed

subsection \<open>C1: the environment selector\<close>

text \<open>
  C1 as stated fails: the selector is lower-cased before it is compared, so the argument
  \<^verbatim>\<open>EAST\<close>, which is not one of \<^verbatim>\<open>east\<close> and \<^verbatim>\<open>west\<close>, selects \<^verbatim>\<open>east.env\<close>. With a
  configuration the constructors accept, both scripts print no error, construct their
  clients and run their top level to the end.
\<close>

theorem C1_counterexample:
  "argv (demo_world [''avro_producer_app.py'', ''EAST''] full_env) ! 1 \<notin> {''east'', ''west''}
   \<and> list_ex is_client_construction
        (fst (producer_startup (demo_world [''avro_producer_app.py'', ''EAST''] full_env)))
   \<and> printed (fst (producer_startup (demo_world [''avro_producer_app.py'', ''EAST''] full_env)))
       = [''[INFO] Loaded environment from east.env'']
   \<and> snd (producer_startup (demo_world [''avro_producer_app.py'', ''EAST''] full_env))
       = Inr demo_globals
   \<and> list_ex is_client_construction
        (fst (consumer_startup (demo_world [''avro_producer_app.py'', ''EAST''] full_env)))
   \<and> printed (fst (consumer_startup (demo_world [''avro_producer_app.py'', ''EAST''] full_env)))
       = [''[INFO] Loaded environment from east.env'',
          ''[WARN] 'CONSUMER_GROUP' is not set. Using default: demo-dr-consumer-group'']"
  by (simp add: startup_defs demo_globals_def)

text \<open>
  C1, amended: for every invocation of either script with a first command-line argument
  whose lower-cased value (\<^verbatim>\<open>sys.argv[1].lower()\<close>) is outside \<open>{east, west}\<close>, the script
  prints the error diagnostic (naming the lower-cased argument) and the list of valid
  options, and exits with status 1; no schema-registry or broker client is constructed.
\<close>

theorem C1_invalid_selector:
  assumes "length (argv w) > 1" and "str_lower w (argv w ! 1) \<notin> {''east'', ''west''}"
  shows "producer_startup w =
           ([Print (''[ERROR] Invalid environment argument: '' @ str_lower w (argv w ! 1)),
             Print (''[INFO] Valid options: 'east', 'west'' @ [CHR 0x27])], Inl (SysExit 1))
         \<and> consumer_startup w =
           ([Print (''[ERROR] Invalid environment argument: '' @ str_lower w (argv w ! 1)),
             Print (''[INFO] Valid options: 'east', 'west'' @ [CHR 0x27])], Inl (SysExit 1))
         \<and> \<not> list_ex is_client_construction (fst (producer_startup w))
         \<and> \<not> list_ex is_client_construction (fst (consumer_startup w))"
  using assms
  by (simp add: producer_startup_def consumer_startup_def producer_configuration_def
      consumer_configuration_def load_environment_file_def Let_def)

theorem C1_invalid_selector_witness:
  "1 < length (argv (demo_world [''avro_consumer_app.py'', ''north''] full_env))
   \<and> str_lower (demo_world [''avro_consumer_app.py'', ''north''] full_env)
        (argv (demo_world [''avro_consumer_app.py'', ''north''] full_env) ! 1)
       \<notin> {''east'', ''west''}
   \<and> producer_startup (demo_world [''avro_consumer_app.py'', ''north''] full_env) =
       ([Print ''[ERROR] Invalid environment argument: north'',
         Print (''[INFO] Valid options: 'east', 'west'' @ [CHR 0x27])], Inl (SysExit 1))
   \<and> consumer_startup (demo_world [''avro_consumer_app.py'', ''north''] full_env) =
       ([Print ''[ERROR] Invalid environment argument: north'',
         Print (''[INFO] Valid options: 'east', 'west'' @ [CHR 0x27])], Inl (SysExit 1))"
  using C1_invalid_selector [of "demo_world [''avro_consumer_app.py'', ''north''] full_env"]
  by (simp add: demo_world_def ascii_lower_def lower_char_def ascii_uppercase_def
      ascii_lowercase_def)

subsection \<open>C2: missing required variables\<close>

text \<open>
  C2 as stated fails for the producer: with \<^verbatim>\<open>BOOTSTRAP_SERVER\<close> unset and
  \<^verbatim>\<open>MESSAGE_INTERVAL=abc\<close> the float conversion raises \<^verbatim>\<open>ValueError\<close> before the required
  variables are looked at, so no diagnostic naming the missing variable is printed.
\<close>

theorem C2_counterexample:
  "''BOOTSTRAP_SERVER'' \<in> set required_vars
   \<and> load_dotenv (demo_world [''avro_producer_app.py''] env_bad_interval) ''.env''
        (environ (demo_world [''avro_producer_app.py''] env_bad_interval)) ''BOOTSTRAP_SERVER'' = None
   \<and> producer_startup (demo_world [''avro_producer_app.py''] env_bad_interval)
       = ([LoadDotenv ''.env'', Print ''[INFO] Loaded environment from .env''],
          Inl (Uncaught ValueError))"
  by (simp add: startup_defs env_bad_interval_def)

text \<open>
  C2, amended: once the environment file is loaded, if a required variable is unset or
  empty the consumer prints a diagnostic naming the missing variables and exits with
  status 1 without constructing a client; if a required variable is unset and
  \<^verbatim>\<open>MESSAGE_INTERVAL\<close> is absent or converts to a float, the producer does the same.
\<close>

theorem C2_missing_required:
  assumes "load_environment_file w = (out, Inr env)" and "v \<in> set required_vars"
  shows "(\<not> truthy (env v) \<longrightarrow>
            v \<in> set (consumer_missing_vars env)
            \<and> consumer_startup w =
                (out @ [Print (''[ERROR] Missing environment variables: ''
                               @ join '', '' (consumer_missing_vars env))], Inl (SysExit 1))
            \<and> \<not> list_ex is_client_construction (fst (consumer_startup w)))
       \<and> (env v = None \<and> float_of_str w (getenv_default env ''MESSAGE_INTERVAL'' ''1.0'') \<noteq> None \<longrightarrow>
            v \<in> set (producer_missing_vars env)
            \<and> producer_startup w =
                (out @ [Print (''[ERROR] Missing required environment variables: ''
                               @ join '', '' (producer_missing_vars env))], Inl (SysExit 1))
            \<and> \<not> list_ex is_client_construction (fst (producer_startup w)))"
proof (intro conjI impI)
  assume f: "\<not> truthy (env v)"
  show c: "v \<in> set (consumer_missing_vars env)"
    using f assms(2) by (simp add: consumer_missing_vars_def)
  then have ne: "consumer_missing_vars env \<noteq> []" by auto
  have "consumer_configuration w =
      (out @ [Print (''[ERROR] Missing environment variables: ''
                     @ join '', '' (consumer_missing_vars env))], Inl (SysExit 1))"
    using assms(1) ne by (simp add: consumer_configuration_def)
  then show r: "consumer_startup w =
      (out @ [Print (''[ERROR] Missing environment variables: ''
                     @ join '', '' (consumer_missing_vars env))], Inl (SysExit 1))"
    by (rule consumer_startup_halt)
  show "\<not> list_ex is_client_construction (fst (consumer_startup w))"
    using load_no_clients [OF assms(1)] by (simp add: r)
next
  assume h: "env v = None \<and> float_of_str w (getenv_default env ''MESSAGE_INTERVAL'' ''1.0'') \<noteq> None"
  show c: "v \<in> set (producer_missing_vars env)"
    using h assms(2) by (simp add: producer_missing_vars_def)
  then have ne: "producer_missing_vars env \<noteq> []" by auto
  have "producer_configuration w =
      (out @ [Print (''[ERROR] Missing required environment variables: ''
                     @ join '', '' (producer_missing_vars env))], Inl (SysExit 1))"
    using assms(1) ne h by (auto simp: producer_configuration_def)
  then show r: "producer_startup w =
      (out @ [Print (''[ERROR] Missing required environment variables: ''
                     @ join '', '' (producer_missing_vars env))], Inl (SysExit 1))"
    by (rule producer_startup_halt)
  show "\<not> list_ex is_client_construction (fst (producer_startup w))"
    using load_no_clients [OF assms(1)] by (simp add: r)
qed

theorem C2_missing_required_witness:
  "load_environment_file (demo_world [''avro_consumer_app.py'', ''West''] env_gaps)
     = ([LoadDotenv ''west.env'', Print ''[INFO] Loaded environment from west.env''], Inr env_gaps)
   \<and> ''BOOTSTRAP_SERVER'' \<in> set required_vars
   \<and> env_gaps ''BOOTSTRAP_SERVER'' = None
   \<and> consumer_startup (demo_world [''avro_consumer_app.py'', ''West''] env_gaps)
       = ([LoadDotenv ''west.env'', Print ''[INFO] Loaded environment from west.env'',
           Print ''[ERROR] Missing environment variables: BOOTSTRAP_SERVER, SASL_PASSWORD''],
          Inl (SysExit 1))
   \<and> producer_startup (demo_world [''avro_consumer_app.py'', ''West''] env_gaps)
       = ([LoadDotenv ''west.env'', Print ''[INFO] Loaded environment from west.env'',
           Print ''[ERROR] Missing required environment variables: BOOTSTRAP_SERVER''],
          Inl (SysExit 1))"
  using C2_missing_required [of "demo_world [''avro_consumer_app.py'', ''West''] env_gaps"
      "[LoadDotenv ''west.env'', Print ''[INFO] Loaded environment from west.env'']"
      env_gaps "''BOOTSTRAP_SERVER''"]
  by (simp add: startup_defs env_gaps_def)


subsection \<open>C3: defaults of the optional keys\<close>

text \<open>
  C3 as stated fails for the producer: with \<^verbatim>\<open>MESSAGE_INTERVAL\<close> absent the interval is
  1.0, but nothing is printed about it; the producer has no warning at all.
\<close>

theorem C3_counterexample:
  "load_dotenv (demo_world [''avro_producer_app.py''] full_env) ''.env''
        (environ (demo_world [''avro_producer_app.py''] full_env)) ''MESSAGE_INTERVAL'' = None
   \<and> producer_configuration (demo_world [''avro_producer_app.py''] full_env)
       = ([LoadDotenv ''.env'', Print ''[INFO] Loaded environment from .env''],
          Inr (full_env, 1))
   \<and> printed (fst (producer_startup (demo_world [''avro_producer_app.py''] full_env)))
       = [''[INFO] Loaded environment from .env'']
   \<and> \<not> list_ex is_warn_line
         (printed (fst (producer_startup (demo_world [''avro_producer_app.py''] full_env))))
   \<and> snd (producer_startup (demo_world [''avro_producer_app.py''] full_env))
       = Inr demo_globals"
  by (simp add: startup_defs is_warn_line_def demo_globals_def)

text \<open>
  C3, amended: with the environment file loaded and every required variable present, when
  \<^verbatim>\<open>CONSUMER_GROUP\<close> is absent the consumer sets the group to
  \<^verbatim>\<open>demo-dr-consumer-group\<close> and prints a warning; when \<^verbatim>\<open>MESSAGE_INTERVAL\<close> is absent the
  producer sets the interval to \<^verbatim>\<open>float("1.0")\<close>, that is 1.0, and prints nothing more.
  The default is what the configuration ends with, before any client is constructed, and
  what the module globals hold whenever the top level runs to its end.
\<close>

theorem C3_defaults:
  assumes "load_environment_file w = (out, Inr env)"
  shows "(consumer_missing_vars env = [] \<and> env ''CONSUMER_GROUP'' = None \<longrightarrow>
            consumer_configuration w =
              (out @ [Print ''[WARN] 'CONSUMER_GROUP' is not set. Using default: demo-dr-consumer-group''],
               Inr (env, Some ''demo-dr-consumer-group''))
            \<and> printed (fst (consumer_startup w)) =
                printed out
                @ [''[WARN] 'CONSUMER_GROUP' is not set. Using default: demo-dr-consumer-group'']
            \<and> (\<forall>g. snd (consumer_startup w) = Inr g \<longrightarrow>
                  c_CONSUMER_GROUP g = Some ''demo-dr-consumer-group''))
       \<and> (producer_missing_vars env = [] \<and> env ''MESSAGE_INTERVAL'' = None
            \<and> float_of_str w ''1.0'' = Some 1 \<longrightarrow>
            producer_configuration w = (out, Inr (env, 1))
            \<and> printed (fst (producer_startup w)) = printed out
            \<and> (\<forall>g. snd (producer_startup w) = Inr g \<longrightarrow> p_MESSAGE_INTERVAL g = 1))"
proof (intro conjI impI allI)
  assume h: "consumer_missing_vars env = [] \<and> env ''CONSUMER_GROUP'' = None"
  have g: "consumer_group env =
      ([Print ''[WARN] 'CONSUMER_GROUP' is not set. Using default: demo-dr-consumer-group''],
       Some ''demo-dr-consumer-group'')"
    using h by (simp add: consumer_group_def truthy_def)
  show c: "consumer_configuration w =
      (out @ [Print ''[WARN] 'CONSUMER_GROUP' is not set. Using default: demo-dr-consumer-group''],
       Inr (env, Some ''demo-dr-consumer-group''))"
    using assms h g by (simp add: consumer_configuration_def)
  show "printed (fst (consumer_startup w)) =
      printed out @ [''[WARN] 'CONSUMER_GROUP' is not set. Using default: demo-dr-consumer-group'']"
    using consumer_startup_printed [OF c] by (simp add: printed_append)
  fix g' assume "snd (consumer_startup w) = Inr g'"
  then show "c_CONSUMER_GROUP g' = Some ''demo-dr-consumer-group''"
    by (auto simp: consumer_startup_def c split: prod.splits option.splits)
next
  assume h: "producer_missing_vars env = [] \<and> env ''MESSAGE_INTERVAL'' = None
            \<and> float_of_str w ''1.0'' = Some 1"
  show c: "producer_configuration w = (out, Inr (env, 1))"
    using assms h by (simp add: producer_configuration_def getenv_default_def)
  show "printed (fst (producer_startup w)) = printed out"
    using c by (rule producer_startup_printed)
  fix g' assume "snd (producer_startup w) = Inr g'"
  then show "p_MESSAGE_INTERVAL g' = 1"
    by (auto simp: producer_startup_def c split: prod.splits option.splits)
qed

theorem C3_defaults_witness:
  "load_environment_file (demo_world [''avro_consumer_app.py'', ''east''] full_env)
     = ([LoadDotenv ''east.env'', Print ''[INFO] Loaded environment from east.env''], Inr full_env)
   \<and> consumer_missing_vars full_env = [] \<and> full_env ''CONSUMER_GROUP'' = None
   \<and> producer_missing_vars full_env = [] \<and> full_env ''MESSAGE_INTERVAL'' = None
   \<and> float_of_str (demo_world [''avro_consumer_app.py'', ''east''] full_env) ''1.0'' = Some 1
   \<and> consumer_configuration (demo_world [''avro_consumer_app.py'', ''east''] full_env)
       = ([LoadDotenv ''east.env'', Print ''[INFO] Loaded environment from east.env'',
           Print ''[WARN] 'CONSUMER_GROUP' is not set. Using default: demo-dr-consumer-group''],
          Inr (full_env, Some ''demo-dr-consumer-group''))
   \<and> printed (fst (consumer_startup (demo_world [''avro_consumer_app.py'', ''east''] full_env)))
       = [''[INFO] Loaded environment from east.env'',
          ''[WARN] 'CONSUMER_GROUP' is not set. Using default: demo-dr-consumer-group'']
   \<and> producer_configuration (demo_world [''avro_consumer_app.py'', ''east''] full_env)
       = ([LoadDotenv ''east.env'', Print ''[INFO] Loaded environment from east.env''],
          Inr (full_env, 1))
   \<and> printed (fst (producer_startup (demo_world [''avro_consumer_app.py'', ''east''] full_env)))
       = [''[INFO] Loaded environment from east.env'']"
  using C3_defaults [of "demo_world [''avro_consumer_app.py'', ''east''] full_env"
      "[LoadDotenv ''east.env'', Print ''[INFO] Loaded environment from east.env'']" full_env]
  by (simp add: startup_defs)

subsection \<open>C9: the two validity tests differ on the empty string\<close>

text \<open>
  C9 as stated fails in one part: a required variable set to the empty string does not by
  itself take the producer to the construction of its clients. With \<^verbatim>\<open>TOPIC_NAME\<close> empty
  and \<^verbatim>\<open>BOOTSTRAP_SERVER\<close> unset the producer exits with status 1, naming
  \<^verbatim>\<open>BOOTSTRAP_SERVER\<close> only, and constructs nothing.
\<close>

theorem C9_counterexample:
  "''TOPIC_NAME'' \<in> set required_vars
   \<and> load_dotenv (demo_world [''avro_producer_app.py''] env_empty_topic_gap) ''.env''
        (environ (demo_world [''avro_producer_app.py''] env_empty_topic_gap)) ''TOPIC_NAME''
       = Some []
   \<and> producer_startup (demo_world [''avro_producer_app.py''] env_empty_topic_gap)
       = ([LoadDotenv ''.env'', Print ''[INFO] Loaded environment from .env'',
           Print ''[ERROR] Missing required environment variables: BOOTSTRAP_SERVER''],
          Inl (SysExit 1))
   \<and> \<not> list_ex is_client_construction
         (fst (producer_startup (demo_world [''avro_producer_app.py''] env_empty_topic_gap)))"
  by (simp add: startup_defs env_empty_topic_gap_def)

text \<open>
  C9, amended: for a required variable set to the empty string, the producer's test
  (\<^verbatim>\<open>is None\<close>) does not count it as missing, and the consumer's test (falsy) counts it as
  missing: the consumer exits with status 1 naming it, and the two lists of missing
  variables differ. The producer passes its validation and reaches the construction of
  its clients when, in addition, no required variable is unset and \<^verbatim>\<open>MESSAGE_INTERVAL\<close>
  is absent or converts to a float; the clients are then constructed if the constructors
  accept the configuration.
\<close>

theorem C9_empty_string:
  assumes "load_environment_file w = (out, Inr env)" and "v \<in> set required_vars"
    and "env v = Some []"
  shows "v \<notin> set (producer_missing_vars env)
       \<and> v \<in> set (consumer_missing_vars env)
       \<and> producer_missing_vars env \<noteq> consumer_missing_vars env
       \<and> consumer_startup w =
           (out @ [Print (''[ERROR] Missing environment variables: ''
                          @ join '', '' (consumer_missing_vars env))], Inl (SysExit 1))
       \<and> ((\<forall>u \<in> set required_vars. env u \<noteq> None)
            \<and> float_of_str w (getenv_default env ''MESSAGE_INTERVAL'' ''1.0'') = Some x \<longrightarrow>
            producer_configuration w = (out, Inr (env, x))
            \<and> (snd (producer_clients w env) = None \<longrightarrow>
                  list_ex is_client_construction (fst (producer_startup w))
                  \<and> (\<exists>g. snd (producer_startup w) = Inr g)))"
proof -
  have p: "v \<notin> set (producer_missing_vars env)"
    using assms(3) by (simp add: producer_missing_vars_def)
  have c: "v \<in> set (consumer_missing_vars env)"
    using assms(2,3) by (simp add: consumer_missing_vars_def truthy_def)
  have ne: "producer_missing_vars env \<noteq> consumer_missing_vars env"
    using p c by metis
  have cne: "consumer_missing_vars env \<noteq> []"
    using c by auto
  have "consumer_configuration w =
      (out @ [Print (''[ERROR] Missing environment variables: ''
                     @ join '', '' (consumer_missing_vars env))], Inl (SysExit 1))"
    using assms(1) cne by (simp add: consumer_configuration_def)
  then have r: "consumer_startup w =
      (out @ [Print (''[ERROR] Missing environment variables: ''
                     @ join '', '' (consumer_missing_vars env))], Inl (SysExit 1))"
    by (rule consumer_startup_halt)
  have q: "producer_configuration w = (out, Inr (env, x))
           \<and> (snd (producer_clients w env) = None \<longrightarrow>
                  list_ex is_client_construction (fst (producer_startup w))
                  \<and> (\<exists>g. snd (producer_startup w) = Inr g))"
    if h: "(\<forall>u \<in> set required_vars. env u \<noteq> None)
           \<and> float_of_str w (getenv_default env ''MESSAGE_INTERVAL'' ''1.0'') = Some x"
  proof -
    have e: "producer_missing_vars env = []"
      using h by (simp add: producer_missing_vars_def filter_empty_conv)
    have k: "producer_configuration w = (out, Inr (env, x))"
      using assms(1) e h by (simp add: producer_configuration_def)
    have "list_ex is_client_construction (fst (producer_startup w))
        \<and> (\<exists>g. snd (producer_startup w) = Inr g)"
      if n: "snd (producer_clients w env) = None"
    proof -
      obtain made where m: "producer_clients w env = (made, None)"
        using n by (cases "producer_clients w env") simp
      have "made = [NewSchemaRegistryClient (schema_registry_conf env),
                    NewAvroSerializer TRANSACTION_SCHEMA,
                    NewSerializingProducer (producer_conf env)]"
        using m by (simp add: producer_clients_def split: option.splits)
      then show ?thesis by (simp add: producer_startup_def k m)
    qed
    then show ?thesis using k by blast
  qed
  show ?thesis using p c ne r q by blast
qed

theorem C9_empty_string_witness:
  "load_environment_file (demo_world [''avro_producer_app.py''] env_empty_topic)
     = ([LoadDotenv ''.env'', Print ''[INFO] Loaded environment from .env''], Inr env_empty_topic)
   \<and> ''TOPIC_NAME'' \<in> set required_vars \<and> env_empty_topic ''TOPIC_NAME'' = Some []
   \<and> producer_missing_vars env_empty_topic = []
   \<and> consumer_missing_vars env_empty_topic = [''TOPIC_NAME'']
   \<and> consumer_startup (demo_world [''avro_producer_app.py''] env_empty_topic)
       = ([LoadDotenv ''.env'', Print ''[INFO] Loaded environment from .env'',
           Print ''[ERROR] Missing environment variables: TOPIC_NAME''], Inl (SysExit 1))
   \<and> producer_configuration (demo_world [''avro_producer_app.py''] env_empty_topic)
       = ([LoadDotenv ''.env'', Print ''[INFO] Loaded environment from .env''],
          Inr (env_empty_topic, 1))
   \<and> snd (producer_clients (demo_world [''avro_producer_app.py''] env_empty_topic)
        env_empty_topic) = None
   \<and> list_ex is_client_construction
        (fst (producer_startup (demo_world [''avro_producer_app.py''] env_empty_topic)))
   \<and> map_sum id p_TOPIC_NAME (snd (producer_startup (demo_world [''avro_producer_app.py''] env_empty_topic)))
       = Inr (Some [])"
  using C9_empty_string [of "demo_world [''avro_producer_app.py''] env_empty_topic"
      "[LoadDotenv ''.env'', Print ''[INFO] Loaded environment from .env'']" env_empty_topic
      "''TOPIC_NAME''" 1]
  by (simp add: startup_defs env_empty_topic_def)

subsection \<open>C10: a message interval that is no number\<close>

text \<open>
  C10: the float conversion of \<^verbatim>\<open>MESSAGE_INTERVAL\<close> stands before the validation of the
  required variables. When the loaded environment sets \<^verbatim>\<open>MESSAGE_INTERVAL\<close> to a string
  that \<^verbatim>\<open>float\<close> rejects, the producer stops with an uncaught \<^verbatim>\<open>ValueError\<close>, whatever
  the required variables are: no \<^verbatim>\<open>[ERROR]\<close> line is printed and no client is constructed.
\<close>

theorem C10_bad_interval:
  assumes "load_environment_file w = (out, Inr env)" and "env ''MESSAGE_INTERVAL'' = Some s"
    and "float_of_str w s = None"
  shows "producer_startup w = (out, Inl (Uncaught ValueError))
       \<and> \<not> list_ex is_error_line (printed (fst (producer_startup w)))
       \<and> \<not> list_ex is_client_construction (fst (producer_startup w))"
proof -
  have "producer_configuration w = (out, Inl (Uncaught ValueError))"
    using assms by (simp add: producer_configuration_def getenv_default_def)
  then have r: "producer_startup w = (out, Inl (Uncaught ValueError))"
    by (rule producer_startup_halt)
  obtain f where f: "out = [LoadDotenv f, Print (''[INFO] Loaded environment from '' @ f)]"
    using load_ok_out [OF assms(1)] by blast
  show ?thesis by (simp add: r f is_error_line_def)
qed

theorem C10_bad_interval_witness:
  "load_environment_file (demo_world [''avro_producer_app.py'', ''west''] env_bad_interval)
     = ([LoadDotenv ''west.env'', Print ''[INFO] Loaded environment from west.env''],
        Inr env_bad_interval)
   \<and> env_bad_interval ''MESSAGE_INTERVAL'' = Some ''abc''
   \<and> float_of_str (demo_world [''avro_producer_app.py'', ''west''] env_bad_interval) ''abc'' = None
   \<and> producer_missing_vars env_bad_interval = [''BOOTSTRAP_SERVER'']
   \<and> producer_startup (demo_world [''avro_producer_app.py'', ''west''] env_bad_interval)
       = ([LoadDotenv ''west.env'', Print ''[INFO] Loaded environment from west.env''],
          Inl (Uncaught ValueError))"
  using C10_bad_interval [of "demo_world [''avro_producer_app.py'', ''west''] env_bad_interval"
      "[LoadDotenv ''west.env'', Print ''[INFO] Loaded environment from west.env'']"
      env_bad_interval "''abc''"]
  by (simp add: startup_defs env_bad_interval_def)


subsection \<open>C4: generated records\<close>

text \<open>
  C4 as stated fails in its last part: \<^verbatim>\<open>timestamp_ms\<close> is read from the wall clock
  (\<^verbatim>\<open>time.time()\<close>), so when the clock is set back between two calls the second timestamp
  is the smaller one.
\<close>

theorem C4_counterexample:
  "map timestamp_ms (generate_transactions demo_rng 0 [1700000001, 1700000000])
     = [1700000001000, 1700000000000]
   \<and> \<not> sorted (map timestamp_ms (generate_transactions demo_rng 0 [1700000001, 1700000000]))"
  unfolding timestamps_of_calls by (simp add: py_int_def rd_t0 rd_t1)

text \<open>
  C4, amended: when every draw of the random source is a float \<open>k / 2^53\<close> in \<open>[0, 1)\<close>,
  every record returned by \<^verbatim>\<open>generate_random_transaction\<close> has a \<^verbatim>\<open>transaction_id\<close>
  matching \<^verbatim>\<open>[A-Z0-9]{8}\<close>, a \<^verbatim>\<open>customer_id\<close> matching \<^verbatim>\<open>[a-z]{6}\<close> and an \<^verbatim>\<open>amount\<close> in
  \<open>[1.0, 1000.0]\<close> that is the float nearest to a whole number of hundredths (so its
  shortest decimal text has at most two decimal places); across successive calls the
  timestamps are non-decreasing whenever the clock readings are.
\<close>

theorem C4_generated_record:
  assumes "\<forall>i. rng i < 2 ^ 53"
  shows "matches_class (ascii_uppercase @ digits) 8
           (transaction_id (fst (generate_random_transaction rng pos now)))
       \<and> matches_class ascii_lowercase 6
           (customer_id (fst (generate_random_transaction rng pos now)))
       \<and> 1 \<le> amount (fst (generate_random_transaction rng pos now))
       \<and> amount (fst (generate_random_transaction rng pos now)) \<le> 1000
       \<and> (\<exists>q::int. amount (fst (generate_random_transaction rng pos now)) = rd (of_int q / 100))
       \<and> (sorted nows \<longrightarrow> sorted (map timestamp_ms (generate_transactions rng pos nows)))"
proof -
  have i36: "nat \<lfloor>rd (random rng i * real (length (ascii_uppercase @ digits)))\<rfloor>
      < length (ascii_uppercase @ digits)" for i
    using index_36 [of "rng i"] assms
    by (simp add: random_def ascii_uppercase_def digits_def)
  have i26: "nat \<lfloor>rd (random rng i * real (length ascii_lowercase))\<rfloor>
      < length ascii_lowercase" for i
    using index_26 [of "rng i"] assms
    by (simp add: random_def ascii_lowercase_def)
  have t: "matches_class (ascii_uppercase @ digits) 8
           (transaction_id (fst (generate_random_transaction rng pos now)))"
    using choices_matches [of rng "ascii_uppercase @ digits", OF i36]
    by (simp add: generate_random_transaction_def)
  have c: "matches_class ascii_lowercase 6
           (customer_id (fst (generate_random_transaction rng pos now)))"
    using choices_matches [of rng ascii_lowercase, OF i26]
    by (simp add: generate_random_transaction_def)
  have r: "0 \<le> random rng (pos + 14)" "random rng (pos + 14) < 1"
    using random_range [OF assms] by simp_all
  have u: "1 \<le> uniform 1 1000 (random rng (pos + 14))
      \<and> uniform 1 1000 (random rng (pos + 14)) \<le> 1000"
    using r by (rule uniform_bounds)
  have a: "1 \<le> amount (fst (generate_random_transaction rng pos now))
       \<and> amount (fst (generate_random_transaction rng pos now)) \<le> 1000"
    using round2_bounds [of "uniform 1 1000 (random rng (pos + 14))"] u
    by (simp add: generate_random_transaction_def)
  have d: "\<exists>q::int. amount (fst (generate_random_transaction rng pos now)) = rd (of_int q / 100)"
    by (auto simp: generate_random_transaction_def round2_def)
  show ?thesis using t c a d timestamps_sorted by blast
qed

theorem C4_generated_record_witness:
  "(\<forall>i. demo_rng i < 2 ^ 53)
   \<and> fst (generate_random_transaction demo_rng 0 demo_now)
       = \<lparr>transaction_id = ''YYYYYYYY'', customer_id = ''rrrrrr'',
          amount = 4548635623644201 / 2 ^ 50, timestamp_ms = 1700000000123\<rparr>
   \<and> matches_class (ascii_uppercase @ digits) 8 ''YYYYYYYY''
   \<and> matches_class ascii_lowercase 6 ''rrrrrr''
   \<and> (1::real) \<le> 4548635623644201 / 2 ^ 50 \<and> (4548635623644201 / 2 ^ 50 :: real) \<le> 1000
   \<and> sorted [demo_now, 1700000001]
   \<and> sorted (map timestamp_ms (generate_transactions demo_rng 0 [demo_now, 1700000001]))"
proof -
  have h: "\<forall>i. demo_rng i < 2 ^ 53" by (simp add: demo_rng_def)
  have s1: "sorted [demo_now, 1700000001]" by (simp add: demo_now_def)
  note c4 = C4_generated_record [OF h, of 0 demo_now "[demo_now, 1700000001]"]
  have m1: "matches_class (ascii_uppercase @ digits) 8 ''YYYYYYYY''"
    using c4 unfolding demo_record by simp
  have m2: "matches_class ascii_lowercase 6 ''rrrrrr''"
    using c4 unfolding demo_record by simp
  have b: "(1::real) \<le> 4548635623644201 / 2 ^ 50 \<and> (4548635623644201 / 2 ^ 50 :: real) \<le> 1000"
    using c4 unfolding demo_record by simp
  have s2: "sorted (map timestamp_ms (generate_transactions demo_rng 0 [demo_now, 1700000001]))"
    using c4 s1 by blast
  show ?thesis using h demo_record m1 m2 b s1 s2 by blast
qed


end
